theory Spec2Isabelle
  imports Complex_Main "HOL-Library.Sublist" "HOL-Library.Char_ord" "HOL-Library.List_Lexorder"
begin

text \<open>
  A shallow embedding of the core of the strategy compiler: the custom indicator units, the
  logic validator with its whole-tree traversal, and the indicator registry.  The logic tree is
  a JSON value; a function of the source that can raise returns a sum whose left component is the
  exception; the registry's state is passed in and returned.
\<close>

section \<open>Custom indicator units\<close>

text \<open>
  \<^verbatim>\<open>indicators/max_drawdown_indicator.py\<close> and \<^verbatim>\<open>indicators/drawdown_indicator.py\<close>.
  Both classes keep the fields \<^verbatim>\<open>period\<close>, \<^verbatim>\<open>price_history\<close> and \<^verbatim>\<open>is_ready\<close>, and share
  the same \<^verbatim>\<open>update\<close>.  Prices are modelled as exact reals: the arithmetic of \<^verbatim>\<open>value\<close> is
  one subtraction and one division, and the only comparisons are between prices.
\<close>

record indicator =
  period :: int
  price_history :: "real list"
  is_ready :: bool

definition init_indicator :: "int \<Rightarrow> indicator" where
  "init_indicator p = \<lparr>period = p, price_history = [], is_ready = False\<rparr>"

text \<open>\<^verbatim>\<open>update\<close>: append, evict the oldest price once the window exceeds \<^verbatim>\<open>period\<close>, become
  ready at two or more stored prices (and stay ready).\<close>

definition update :: "indicator \<Rightarrow> real \<Rightarrow> indicator" where
  "update s price =
     (let h1 = price_history s @ [price];
          h2 = (if int (length h1) > period s then tl h1 else h1)
      in s\<lparr>price_history := h2,
            is_ready := (if length h2 \<ge> 2 then True else is_ready s)\<rparr>)"

fun update_all :: "indicator \<Rightarrow> real list \<Rightarrow> indicator" where
  "update_all s [] = s"
| "update_all s (p # ps) = update_all (update s p) ps"

text \<open>The loop of \<^verbatim>\<open>MaxDrawdownIndicator.value\<close> over \<^verbatim>\<open>price_history[1:]\<close>, with the running
  \<^verbatim>\<open>peak\<close> and \<^verbatim>\<open>max_drawdown\<close> as accumulators.\<close>

fun max_drawdown_loop :: "real \<Rightarrow> real \<Rightarrow> real list \<Rightarrow> real" where
  "max_drawdown_loop peak max_drawdown [] = max_drawdown"
| "max_drawdown_loop peak max_drawdown (price # rest) =
     (if price > peak then max_drawdown_loop price max_drawdown rest
      else (let drawdown = (if peak > 0 then (peak - price) / peak else 0)
            in max_drawdown_loop peak (max max_drawdown drawdown) rest))"

definition max_drawdown_value :: "indicator \<Rightarrow> real" where
  "max_drawdown_value s =
     (if \<not> is_ready s \<or> length (price_history s) < 2 then 0
      else max_drawdown_loop (hd (price_history s)) 0 (tl (price_history s)))"

text \<open>\<^verbatim>\<open>DrawdownIndicator.value\<close>: \<^verbatim>\<open>max(self.price_history)\<close> is a left fold of \<^verbatim>\<open>max\<close>; the
  history has at least two elements where it is evaluated.\<close>

definition py_max :: "real list \<Rightarrow> real" where
  "py_max xs = foldl max (hd xs) (tl xs)"

definition drawdown_value :: "indicator \<Rightarrow> real" where
  "drawdown_value s =
     (if \<not> is_ready s \<or> length (price_history s) < 2 then 0
      else (let peak = py_max (price_history s);
                current_price = last (price_history s)
            in if peak > 0 then (peak - current_price) / peak else 0))"


section \<open>JSON values and the Python operations the compiler core applies to them\<close>

text \<open>
  The strategy specification is a parsed JSON document.  A Python \<^verbatim>\<open>dict\<close> keeps its insertion
  order, so it is an association list (a parsed document has no duplicate keys); Python integers
  are unbounded; a Python float is a real number or one of the three special values the parser
  accepts.  A Python \<^verbatim>\<open>str\<close> is the list of the bytes of its UTF-8 encoding: equality,
  concatenation, the substring test and the ordering of these lists are those of the strings.
\<close>

datatype pyfloat = Finite real | PosInf | NegInf | NaN

datatype json =
    JNull
  | JBool bool
  | JInt int
  | JFloat pyfloat
  | JStr string
  | JList "json list"
  | JDict "(string \<times> json) list"

text \<open>The exceptions that escape from the modelled functions.\<close>

datatype py_error = AttributeError | TypeError | OverflowError | UnboundLocalError

text \<open>
  The functions of the Python runtime that the repository calls and that depend on the Unicode
  character data or on the float format are parameters of the model: \<^verbatim>\<open>str.upper\<close>,
  \<^verbatim>\<open>str.lower\<close>, \<^verbatim>\<open>str.strip\<close>, the iteration over the characters of a string, the \<^verbatim>\<open>repr\<close> of a
  float, the \<^verbatim>\<open>repr\<close> of a string (as printed inside a list or a dict), and \<^verbatim>\<open>float(s)\<close> on a
  string (\<open>None\<close> for \<^verbatim>\<open>ValueError\<close>).  Every function of the model takes them as \<open>L\<close>, and every
  theorem with a free \<open>L\<close> holds for each choice of them.
\<close>

record pylib =
  upper :: "string \<Rightarrow> string"
  lower :: "string \<Rightarrow> string"
  strip :: "string \<Rightarrow> string"
  chars :: "string \<Rightarrow> string list"
  float_repr :: "pyfloat \<Rightarrow> string"
  str_repr :: "string \<Rightarrow> string"
  float_of_str :: "string \<Rightarrow> pyfloat option"

definition sq :: string where
  "sq = [CHR 0x27]"

subsection \<open>An instance of the runtime functions for ASCII input\<close>

text \<open>
  On a string of ASCII characters \<^verbatim>\<open>str.upper\<close> and \<^verbatim>\<open>str.lower\<close> change the case of the letters a
  to z and A to Z and keep every other character, \<^verbatim>\<open>str.strip\<close> removes the leading and trailing
  characters for which \<^verbatim>\<open>str.isspace\<close> holds, and the characters are the bytes.  \<open>plain_lib\<close>
  has these four functions.  It serves only to run the model on concrete inputs whose strings
  are ASCII and whose result involves no \<^verbatim>\<open>repr\<close> of a float or of a string; its \<open>float_of_str\<close>
  rejects every string, and is applied below to a string that is no number only.
\<close>

definition ascii_upper_char :: "char \<Rightarrow> char" where
  "ascii_upper_char c =
     (case map_of (zip ''abcdefghijklmnopqrstuvwxyz'' ''ABCDEFGHIJKLMNOPQRSTUVWXYZ'') c of
        Some u \<Rightarrow> u | None \<Rightarrow> c)"

definition ascii_lower_char :: "char \<Rightarrow> char" where
  "ascii_lower_char c =
     (case map_of (zip ''ABCDEFGHIJKLMNOPQRSTUVWXYZ'' ''abcdefghijklmnopqrstuvwxyz'') c of
        Some l \<Rightarrow> l | None \<Rightarrow> c)"

definition ascii_is_space :: "char \<Rightarrow> bool" where
  "ascii_is_space c = (c \<in> set [CHR '' '', CHR 0x09, CHR 0x0A, CHR 0x0B, CHR 0x0C, CHR 0x0D,
                                  CHR 0x1C, CHR 0x1D, CHR 0x1E, CHR 0x1F])"

definition ascii_strip :: "string \<Rightarrow> string" where
  "ascii_strip s = rev (dropWhile ascii_is_space (rev (dropWhile ascii_is_space s)))"

definition plain_lib :: pylib where
  "plain_lib =
     \<lparr>upper = map ascii_upper_char, lower = map ascii_lower_char, strip = ascii_strip,
      chars = map (\<lambda>c. [c]),
      float_repr = (\<lambda>f. ''<float>''), str_repr = (\<lambda>s. sq @ s @ sq),
      float_of_str = (\<lambda>s. None)\<rparr>"

subsection \<open>Strings\<close>

text \<open>\<^verbatim>\<open>sep.join(xs)\<close>.\<close>

fun join :: "string \<Rightarrow> string list \<Rightarrow> string" where
  "join sep [] = []"
| "join sep [x] = x"
| "join sep (x # y # ys) = x @ sep @ join sep (y # ys)"

text \<open>\<^verbatim>\<open>str(n)\<close> for an integer.\<close>

function str_of_nat :: "nat \<Rightarrow> string" where
  "str_of_nat n =
     (if n < 10 then [''0123456789'' ! n]
      else str_of_nat (n div 10) @ [''0123456789'' ! (n mod 10)])"
  by pat_completeness auto
termination
  by (relation "measure id") auto

declare str_of_nat.simps [simp del]

definition str_of_int :: "int \<Rightarrow> string" where
  "str_of_int i = (if i < 0 then ''-'' @ str_of_nat (nat (- i)) else str_of_nat (nat i))"

subsection \<open>Values\<close>

text \<open>\<^verbatim>\<open>repr(x)\<close> and \<^verbatim>\<open>str(x)\<close>, the latter being what an f-string inserts.\<close>

fun py_repr :: "pylib \<Rightarrow> json \<Rightarrow> string" where
  "py_repr L JNull = ''None''"
| "py_repr L (JBool b) = (if b then ''True'' else ''False'')"
| "py_repr L (JInt i) = str_of_int i"
| "py_repr L (JFloat f) = float_repr L f"
| "py_repr L (JStr s) = str_repr L s"
| "py_repr L (JList xs) = ''['' @ join '', '' (map (py_repr L) xs) @ '']''"
| "py_repr L (JDict kvs) =
     ''{'' @ join '', '' (map (\<lambda>kv. str_repr L (fst kv) @ '': '' @ py_repr L (snd kv)) kvs) @ ''}''"

definition py_str :: "pylib \<Rightarrow> json \<Rightarrow> string" where
  "py_str L x = (case x of JStr s \<Rightarrow> s | _ \<Rightarrow> py_repr L x)"

text \<open>Truth value of a value in a condition (\<^verbatim>\<open>if x\<close>, \<^verbatim>\<open>x or y\<close>).\<close>

fun truthy :: "json \<Rightarrow> bool" where
  "truthy JNull = False"
| "truthy (JBool b) = b"
| "truthy (JInt i) = (i \<noteq> 0)"
| "truthy (JFloat f) = (f \<noteq> Finite 0)"
| "truthy (JStr s) = (s \<noteq> [])"
| "truthy (JList xs) = (xs \<noteq> [])"
| "truthy (JDict kvs) = (kvs \<noteq> [])"

fun is_str :: "json \<Rightarrow> bool" where
  "is_str (JStr s) = True"
| "is_str x = False"

fun is_dict :: "json \<Rightarrow> bool" where
  "is_dict (JDict d) = True"
| "is_dict x = False"

fun is_list :: "json \<Rightarrow> bool" where
  "is_list (JList xs) = True"
| "is_list x = False"

fun is_bool :: "json \<Rightarrow> bool" where
  "is_bool (JBool b) = True"
| "is_bool x = False"

text \<open>\<^verbatim>\<open>isinstance(x, int)\<close>: a bool is an int.  \<^verbatim>\<open>isinstance(x, (int, float))\<close> adds the floats.\<close>

fun is_int :: "json \<Rightarrow> bool" where
  "is_int (JInt i) = True"
| "is_int (JBool b) = True"
| "is_int x = False"

fun is_int_or_float :: "json \<Rightarrow> bool" where
  "is_int_or_float (JInt i) = True"
| "is_int_or_float (JBool b) = True"
| "is_int_or_float (JFloat f) = True"
| "is_int_or_float x = False"

text \<open>The integer an int-like value compares as (\<^verbatim>\<open>True\<close> is 1).\<close>

fun int_of :: "json \<Rightarrow> int" where
  "int_of (JInt i) = i"
| "int_of (JBool b) = (if b then 1 else 0)"
| "int_of x = 0"

text \<open>Membership in a \<^verbatim>\<open>set\<close> hashes the value first: lists and dicts raise \<^verbatim>\<open>TypeError\<close>.\<close>

fun hashable :: "json \<Rightarrow> bool" where
  "hashable (JList xs) = False"
| "hashable (JDict d) = False"
| "hashable x = True"

definition in_str_set :: "json \<Rightarrow> string list \<Rightarrow> bool" where
  "in_str_set x S = (case x of JStr s \<Rightarrow> s \<in> set S | _ \<Rightarrow> False)"

text \<open>\<^verbatim>\<open>d.get(k)\<close>, \<^verbatim>\<open>d.get(k, default)\<close> and \<^verbatim>\<open>k in d\<close>.\<close>

definition py_get :: "(string \<times> json) list \<Rightarrow> string \<Rightarrow> json" where
  "py_get d k = (case map_of d k of Some v \<Rightarrow> v | None \<Rightarrow> JNull)"

definition py_get_default :: "(string \<times> json) list \<Rightarrow> string \<Rightarrow> json \<Rightarrow> json" where
  "py_get_default d k dflt = (case map_of d k of Some v \<Rightarrow> v | None \<Rightarrow> dflt)"

definition has_key :: "(string \<times> json) list \<Rightarrow> string \<Rightarrow> bool" where
  "has_key d k = (map_of d k \<noteq> None)"

subsection \<open>Floats\<close>

text \<open>
  \<^verbatim>\<open>float(n)\<close> of an integer raises \<^verbatim>\<open>OverflowError\<close> when \<open>n\<close> rounds beyond the largest double.
  The validators only compare the result with zero, so the rounding of the value itself is left
  out.
\<close>

definition int_overflows :: "int \<Rightarrow> bool" where
  "int_overflows n = (\<bar>n\<bar> \<ge> 2 ^ 1024 - 2 ^ 970)"

fun float_lt0 :: "pyfloat \<Rightarrow> bool" where
  "float_lt0 (Finite r) = (r < 0)"
| "float_lt0 NegInf = True"
| "float_lt0 PosInf = False"
| "float_lt0 NaN = False"

text \<open>\<^verbatim>\<open>float(x)\<close> where \<open>x\<close> is known to be an int, a bool or a float.\<close>

fun float_of_number :: "json \<Rightarrow> py_error + pyfloat" where
  "float_of_number (JInt n) = (if int_overflows n then Inl OverflowError else Inr (Finite (of_int n)))"
| "float_of_number (JBool b) = Inr (Finite (if b then 1 else 0))"
| "float_of_number (JFloat f) = Inr f"
| "float_of_number x = Inl TypeError"

text \<open>\<^verbatim>\<open>float(v)\<close> inside \<^verbatim>\<open>try: ... except Exception\<close>: \<open>None\<close> when any exception was caught.\<close>

fun float_try :: "pylib \<Rightarrow> json \<Rightarrow> pyfloat option" where
  "float_try L (JStr s) = float_of_str L s"
| "float_try L x = (case float_of_number x of Inl e \<Rightarrow> None | Inr f \<Rightarrow> Some f)"

subsection \<open>Collecting errors\<close>

text \<open>
  Every validator appends to one list of messages, in program order.  Each block of checks is
  modelled as the list of messages it appends, or the exception it raises; \<open>seq_errors\<close> runs
  the blocks in order and stops at the first exception.
\<close>

fun seq_errors :: "(py_error + string list) list \<Rightarrow> py_error + string list" where
  "seq_errors [] = Inr []"
| "seq_errors (Inl e # rest) = Inl e"
| "seq_errors (Inr es # rest) =
     (case seq_errors rest of Inl e \<Rightarrow> Inl e | Inr es' \<Rightarrow> Inr (es @ es'))"

text \<open>\<^verbatim>\<open>is_valid = len(errors) == 0; return is_valid, errors\<close>.\<close>

definition finish :: "py_error + string list \<Rightarrow> py_error + (bool \<times> string list)" where
  "finish r = (case r of Inl e \<Rightarrow> Inl e | Inr errors \<Rightarrow> Inr (errors = [], errors))"

section \<open>The logic validator\<close>

text \<open>
  \<^verbatim>\<open>validators/logic_validator.py\<close>.  A validator returns \<open>Inr (is_valid, errors)\<close>, or \<open>Inl\<close>
  the exception that escapes from it.
\<close>

subsection \<open>\<^verbatim>\<open>validate_order_node\<close>\<close>

text \<open>The prefix of the f-string messages, with the formatted \<^verbatim>\<open>node_id\<close>.\<close>

definition for_order :: "string \<Rightarrow> string" where
  "for_order nid = ''For order '' @ sq @ nid @ sq @ '', ''"

definition order_id_errors :: "(string \<times> json) list \<Rightarrow> string list" where
  "order_id_errors d =
     (let id_string = py_get d ''id''
      in if truthy id_string \<and> \<not> is_str id_string
         then [''order.id must be a string when provided''] else [])"

definition order_side_errors :: "string \<Rightarrow> (string \<times> json) list \<Rightarrow> string list" where
  "order_side_errors nid d =
     (let side0 = py_get d ''side'';
          e1 = (if \<not> is_str side0 then [''For order '{node_id}', order.side must be a string'']
                else []);
          side = (if \<not> is_str side0 then JStr [] else side0);
          e2 = (if \<not> in_str_set side [''long'', ''short'']
                then [for_order nid @ ''order.side must be 'long' or 'short'' @ sq] else [])
      in e1 @ e2)"

definition order_size_type_errors :: "string \<Rightarrow> (string \<times> json) list \<Rightarrow> py_error + string list" where
  "order_size_type_errors nid d =
     (let size_type = py_get_default d ''size_type'' (JStr ''percent_equity'')
      in if \<not> hashable size_type then Inl TypeError
         else if \<not> in_str_set size_type [''percent_equity'', ''fixed_qty'', ''fixed_value'', ''risk_based'']
         then Inr [for_order nid @
                   ''order.size_type must be one of: percent_equity, fixed_qty, fixed_value, risk_based'']
         else Inr [])"

definition order_allocation_errors :: "string \<Rightarrow> (string \<times> json) list \<Rightarrow> string list" where
  "order_allocation_errors nid d =
     (let allocation0 = py_get_default d ''allocation'' (JStr ''equal'');
          e1 = (if \<not> is_str allocation0
                then [''For order '{node_id}', order.allocation must be a string''] else []);
          allocation = (if \<not> is_str allocation0 then JStr [] else allocation0);
          e2 = (if \<not> in_str_set allocation [''equal'', ''weighted'', ''custom'']
                then [for_order nid @ ''order.allocation must be one of: equal, weighted, custom'']
                else [])
      in e1 @ e2)"

definition order_size_errors :: "(string \<times> json) list \<Rightarrow> py_error + string list" where
  "order_size_errors d =
     (if has_key d ''size'' \<and> \<not> is_int_or_float (py_get d ''size'')
      then Inr [''For order '{node_id}', order.size must be a number when provided'']
      else if has_key d ''size''
      then (case float_of_number (py_get d ''size'') of
              Inl e \<Rightarrow> Inl e
            | Inr f \<Rightarrow> Inr (if float_lt0 f then [''For order '{node_id}', order.size must be >= 0'']
                             else []))
      else Inr [])"

text \<open>\<^verbatim>\<open>weights = node.get("weights") or {}\<close>.\<close>

definition order_weights :: "(string \<times> json) list \<Rightarrow> json" where
  "order_weights d = (let w = py_get d ''weights'' in if truthy w then w else JDict [])"

definition order_weights_type_errors :: "(string \<times> json) list \<Rightarrow> string list" where
  "order_weights_type_errors d =
     (if \<not> is_dict (order_weights d)
      then [''For order '{node_id}', order.weights must be an object/dict when provided'']
      else [])"

text \<open>The keys of the weights once the node has passed the statement that calls
  \<^verbatim>\<open>weights.keys()\<close>: from there on \<^verbatim>\<open>weights\<close> is a dict.\<close>

definition weight_items :: "(string \<times> json) list \<Rightarrow> (string \<times> json) list" where
  "weight_items d = (case order_weights d of JDict w \<Rightarrow> w | _ \<Rightarrow> [])"

text \<open>
  The symbols contributed by \<^verbatim>\<open>weights\<close>, \<^verbatim>\<open>symbol_filter\<close> and \<^verbatim>\<open>universe\<close>.  \<^verbatim>\<open>weights.keys()\<close>
  raises on a value that is true and no dict.  Iterating \<^verbatim>\<open>universe\<close> yields the elements of a
  list, the keys of a dict and the characters of a string, raises on any other true value, and
  \<^verbatim>\<open>s.upper()\<close> raises on an element that is no string.
\<close>

definition symbols_of_weights :: "pylib \<Rightarrow> (string \<times> json) list \<Rightarrow> py_error + string list" where
  "symbols_of_weights L d =
     (let weights = order_weights d
      in if truthy weights
         then (case weights of JDict w \<Rightarrow> Inr (map (\<lambda>kv. upper L (fst kv)) w)
                             | _ \<Rightarrow> Inl AttributeError)
         else Inr [])"

definition symbols_of_filter :: "pylib \<Rightarrow> (string \<times> json) list \<Rightarrow> string list" where
  "symbols_of_filter L d =
     (let symbol_filter = py_get d ''symbol_filter''
      in if truthy symbol_filter then [upper L (py_str L symbol_filter)] else [])"

text \<open>\<^verbatim>\<open>universe = node.get("universe") or []\<close>.\<close>

definition order_universe :: "(string \<times> json) list \<Rightarrow> json" where
  "order_universe d = (let u = py_get d ''universe'' in if truthy u then u else JList [])"

fun upper_all :: "pylib \<Rightarrow> json list \<Rightarrow> py_error + string list" where
  "upper_all L [] = Inr []"
| "upper_all L (JStr s # rest) =
     (case upper_all L rest of Inl e \<Rightarrow> Inl e | Inr us \<Rightarrow> Inr (upper L s # us))"
| "upper_all L (x # rest) = Inl AttributeError"

definition symbols_of_universe :: "pylib \<Rightarrow> (string \<times> json) list \<Rightarrow> py_error + string list" where
  "symbols_of_universe L d =
     (let universe = order_universe d
      in if truthy universe
         then (case universe of
                 JList xs \<Rightarrow> upper_all L xs
               | JDict kvs \<Rightarrow> Inr (map (\<lambda>kv. upper L (fst kv)) kvs)
               | JStr s \<Rightarrow> Inr (map (upper L) (chars L s))
               | _ \<Rightarrow> Inl TypeError)
         else Inr [])"

text \<open>The set \<^verbatim>\<open>symbols\<close>, as a list without duplicates.\<close>

definition order_symbols :: "pylib \<Rightarrow> (string \<times> json) list \<Rightarrow> py_error + string list" where
  "order_symbols L d =
     (case symbols_of_weights L d of
        Inl e \<Rightarrow> Inl e
      | Inr ws \<Rightarrow>
          (case symbols_of_universe L d of
             Inl e \<Rightarrow> Inl e
           | Inr us \<Rightarrow> Inr (remdups (ws @ symbols_of_filter L d @ us))))"

fun all_str :: "json list \<Rightarrow> bool" where
  "all_str [] = True"
| "all_str (x # xs) = (is_str x \<and> all_str xs)"

definition order_universe_type_errors :: "(string \<times> json) list \<Rightarrow> string list" where
  "order_universe_type_errors d =
     (let universe = order_universe d
      in if truthy universe \<and> \<not> (case universe of JList xs \<Rightarrow> all_str xs | _ \<Rightarrow> False)
         then [''For order '{node_id}', order.universe must be an array of strings when provided'']
         else [])"

definition order_no_symbols_errors :: "string list \<Rightarrow> string list" where
  "order_no_symbols_errors symbols =
     (if symbols = []
      then [''For order '{node_id}', No symbols found: provide at least one via weights, symbol_filter, or universe'']
      else [])"

definition order_allowed_errors :: "pylib \<Rightarrow> string \<Rightarrow> string list \<Rightarrow> string list \<Rightarrow> string list" where
  "order_allowed_errors L nid symbols allowed_tickers =
     (let allowed = map (upper L) allowed_tickers;
          invalid = sort (filter (\<lambda>sym. sym \<notin> set allowed) symbols)
      in if invalid \<noteq> [] then [for_order nid @ ''Symbols not allowed: '' @ join '', '' invalid]
         else [])"

text \<open>\<^verbatim>\<open>missing_weights\<close>: the referenced symbols that are no uppercased key of \<^verbatim>\<open>weights\<close>.\<close>

definition missing_weights :: "pylib \<Rightarrow> string list \<Rightarrow> (string \<times> json) list \<Rightarrow> string list" where
  "missing_weights L symbols d =
     filter (\<lambda>sym. sym \<notin> set (map (\<lambda>kv. upper L (fst kv)) (weight_items d))) symbols"

definition order_missing_errors :: "pylib \<Rightarrow> string \<Rightarrow> string list \<Rightarrow> (string \<times> json) list \<Rightarrow> string list" where
  "order_missing_errors L nid symbols d =
     (if missing_weights L symbols d \<noteq> []
      then [for_order nid @ ''Missing weight(s) for: '' @ join '', '' (sort (missing_weights L symbols d))]
      else [])"

text \<open>
  The loop over \<^verbatim>\<open>weights.items()\<close>.  The local \<^verbatim>\<open>w\<close> is assigned only when \<^verbatim>\<open>float(v)\<close> succeeds;
  the handler of the \<^verbatim>\<open>try\<close> appends a message and falls through to \<^verbatim>\<open>if w < 0\<close>, which reads the
  value of an earlier iteration, or raises \<^verbatim>\<open>UnboundLocalError\<close> when there is none.
\<close>

fun order_weights_loop ::
  "pylib \<Rightarrow> string \<Rightarrow> string list \<Rightarrow> pyfloat option \<Rightarrow> (string \<times> json) list \<Rightarrow> py_error + string list"
where
  "order_weights_loop L nid symbols w [] = Inr []"
| "order_weights_loop L nid symbols w ((k, v) # rest) =
     (let sym = upper L k;
          e1 = (if sym \<notin> set symbols
                then [for_order nid @ ''Unexpected weight for symbol not referenced by node: '' @ sym]
                else [])
      in if is_list v \<or> is_dict v \<or> is_bool v
         then seq_errors [Inr (e1 @ [for_order nid @ ''Weight for '' @ sym @ '' must be a number'']),
                          order_weights_loop L nid symbols w rest]
         else (let conv = float_try L v;
                   e2 = (if conv = None
                         then [for_order nid @ ''Weight for '' @ sym @ '' must be a number'']
                         else []);
                   w' = (case conv of Some f \<Rightarrow> Some f | None \<Rightarrow> w)
               in case w' of
                    None \<Rightarrow> Inl UnboundLocalError
                  | Some f \<Rightarrow>
                      seq_errors
                        [Inr (e1 @ e2 @
                              (if float_lt0 f
                               then [for_order nid @ ''Weight for '' @ sym @ '' must be >= 0'']
                               else [])),
                         order_weights_loop L nid symbols w' rest]))"

definition validate_order_node :: "pylib \<Rightarrow> json \<Rightarrow> string list \<Rightarrow> py_error + (bool \<times> string list)" where
  "validate_order_node L node allowed_tickers =
     (case node of
        JDict d \<Rightarrow>
          if py_get d ''type'' \<noteq> JStr ''order''
          then Inr (False, [''For order '{node_id}', node.type must be 'order'' @ sq])
          else (let nid = py_str L (py_get d ''id'')
                in finish (seq_errors
                     [Inr (order_id_errors d),
                      Inr (order_side_errors nid d),
                      order_size_type_errors nid d,
                      Inr (order_allocation_errors nid d),
                      order_size_errors d,
                      Inr (order_weights_type_errors d),
                      (case order_symbols L d of
                         Inl e \<Rightarrow> Inl e
                       | Inr symbols \<Rightarrow>
                           seq_errors
                             [Inr (order_universe_type_errors d),
                              Inr (order_no_symbols_errors symbols),
                              Inr (order_allowed_errors L nid symbols allowed_tickers),
                              Inr (order_missing_errors L nid symbols d),
                              order_weights_loop L nid symbols None (weight_items d)])]))
      | _ \<Rightarrow> Inr (False, [''order node must be a dict'']))"

text \<open>
  Conditions on the fields of an order node under which none of the statements above raises:
  \<^verbatim>\<open>size_type\<close> is hashable, an integer \<^verbatim>\<open>size\<close> converts to a float, and every weight is a
  list, dict or bool (rejected before the conversion) or converts to a float.
\<close>

definition weight_value_ok :: "pylib \<Rightarrow> json \<Rightarrow> bool" where
  "weight_value_ok L v = (is_list v \<or> is_dict v \<or> is_bool v \<or> float_try L v \<noteq> None)"

definition order_fields_ok :: "pylib \<Rightarrow> (string \<times> json) list \<Rightarrow> bool" where
  "order_fields_ok L d =
     (hashable (py_get_default d ''size_type'' (JStr ''percent_equity''))
      \<and> (case py_get d ''size'' of JInt n \<Rightarrow> \<not> int_overflows n | _ \<Rightarrow> True)
      \<and> list_all (\<lambda>kv. weight_value_ok L (snd kv)) (weight_items d))"

text \<open>The order node of the specification's example: \<^verbatim>\<open>universe\<close> SPY and TQQQ, a weight for SPY
  only.\<close>

definition order_example :: "(string \<times> json) list" where
  "order_example =
     [(''type'', JStr ''order''), (''side'', JStr ''long''),
      (''universe'', JList [JStr ''SPY'', JStr ''TQQQ'']),
      (''weights'', JDict [(''SPY'', JFloat (Finite 0.5))])]"

text \<open>The same node with the weight \<^verbatim>\<open>null\<close> for SPY; two nodes whose second symbol is the
  \<^verbatim>\<open>symbol_filter\<close> \<^verbatim>\<open>tqqq\<close>, with a numeric and with a \<^verbatim>\<open>null\<close> weight for SPY; and a node whose
  \<^verbatim>\<open>universe\<close> holds a number.\<close>

definition order_missing_null :: "(string \<times> json) list" where
  "order_missing_null =
     [(''type'', JStr ''order''), (''side'', JStr ''long''),
      (''universe'', JList [JStr ''SPY'', JStr ''TQQQ'']),
      (''weights'', JDict [(''SPY'', JNull)])]"

definition order_filter_example :: "(string \<times> json) list" where
  "order_filter_example =
     [(''type'', JStr ''order''), (''side'', JStr ''long''), (''allocation'', JStr ''equal''),
      (''symbol_filter'', JStr ''tqqq''),
      (''weights'', JDict [(''spy'', JFloat (Finite 0.5))])]"

definition order_filter_missing_null :: "(string \<times> json) list" where
  "order_filter_missing_null =
     [(''type'', JStr ''order''), (''side'', JStr ''long''), (''allocation'', JStr ''equal''),
      (''symbol_filter'', JStr ''tqqq''),
      (''weights'', JDict [(''spy'', JNull)])]"

definition order_universe_number :: "(string \<times> json) list" where
  "order_universe_number =
     [(''type'', JStr ''order''), (''side'', JStr ''long''),
      (''universe'', JList [JStr ''SPY'', JInt 5]),
      (''weights'', JDict [(''SPY'', JFloat (Finite 0.5))])]"

subsection \<open>\<^verbatim>\<open>validate_condition_node\<close>\<close>

text \<open>The keyword arguments of \<^verbatim>\<open>validate_condition_node\<close> and their defaults.\<close>

record cond_opts =
  cond_allowed_metrics :: "string list option"
  cond_allowed_symbols :: "string list option"
  require_symbol_for_metrics :: bool
  validate_else :: bool
  else_required :: bool
  else_label :: string
  else_must_be_last :: bool
  else_require_children :: bool

definition default_cond_opts :: cond_opts where
  "default_cond_opts =
     \<lparr>cond_allowed_metrics = None, cond_allowed_symbols = None,
      require_symbol_for_metrics = True, validate_else = True, else_required = False,
      else_label = ''Else branch'', else_must_be_last = True, else_require_children = True\<rparr>"

definition CONDITION_OPS :: "string list" where
  "CONDITION_OPS = [''gt'', ''gte'', ''lt'', ''lte'', ''eq'', ''neq'', ''crosses_above'', ''crosses_below'']"

text \<open>\<^verbatim>\<open>repr(sorted(_CONDITION_OPS))\<close>, as the f-string prints it.\<close>

definition sorted_condition_ops_repr :: string where
  "sorted_condition_ops_repr =
     ''['' @ join '', '' (map (\<lambda>s. sq @ s @ sq) (sort CONDITION_OPS)) @ '']''"

definition for_condition :: "string \<Rightarrow> string" where
  "for_condition nid = ''For condition '' @ sq @ nid @ sq"

text \<open>\<^verbatim>\<open>set(m.lower() for m in allowed_metrics) if allowed_metrics else None\<close>, and the same with
  \<^verbatim>\<open>upper\<close> for the symbols.\<close>

definition allowed_metrics_set :: "pylib \<Rightarrow> cond_opts \<Rightarrow> string list option" where
  "allowed_metrics_set L opts =
     (case cond_allowed_metrics opts of
        None \<Rightarrow> None
      | Some ms \<Rightarrow> if ms = [] then None else Some (map (lower L) ms))"

definition allowed_symbols_set :: "pylib \<Rightarrow> cond_opts \<Rightarrow> string list option" where
  "allowed_symbols_set L opts =
     (case cond_allowed_symbols opts of
        None \<Rightarrow> None
      | Some ss \<Rightarrow> if ss = [] then None else Some (map (upper L) ss))"

text \<open>The normalised operand: the \<^verbatim>\<open>kind\<close> of the dict that \<^verbatim>\<open>_parse_operand\<close> returns, with the
  fields of each kind.\<close>

datatype operand =
    Metric string "(string \<times> json) list" "string option"
  | Literal pyfloat
  | Invalid

fun is_metric_kind :: "operand \<Rightarrow> bool" where
  "is_metric_kind (Metric name args symbol) = True"
| "is_metric_kind x = False"

fun is_literal_kind :: "operand \<Rightarrow> bool" where
  "is_literal_kind (Literal v) = True"
| "is_literal_kind x = False"

text \<open>\<^verbatim>\<open>_is_number\<close>: an int or a float that is no bool.\<close>

fun is_number :: "json \<Rightarrow> bool" where
  "is_number (JInt i) = True"
| "is_number (JFloat f) = True"
| "is_number x = False"

text \<open>The first test of \<^verbatim>\<open>_parse_operand\<close>: \<^verbatim>\<open>isinstance(x, dict) and "name" in x\<close>.\<close>

fun is_metric_object :: "json \<Rightarrow> bool" where
  "is_metric_object (JDict m) = has_key m ''name''"
| "is_metric_object x = False"

text \<open>\<^verbatim>\<open>not isinstance(s, str) or not s.strip()\<close>.\<close>

definition blank_or_no_str :: "pylib \<Rightarrow> json \<Rightarrow> bool" where
  "blank_or_no_str L x = (case x of JStr s \<Rightarrow> strip L s = [] | _ \<Rightarrow> True)"

text \<open>\<^verbatim>\<open>not isinstance(period, int) or period <= 0\<close>.\<close>

definition bad_period :: "json \<Rightarrow> bool" where
  "bad_period p = (\<not> is_int p \<or> int_of p \<le> 0)"

text \<open>\<^verbatim>\<open>_validate_metric(m, side)\<close> for a dict \<open>m\<close>: the parsed metric, or \<open>None\<close>, and the messages
  it appends.\<close>

definition validate_metric ::
  "pylib \<Rightarrow> cond_opts \<Rightarrow> string \<Rightarrow> (string \<times> json) list \<Rightarrow> string \<Rightarrow> operand option \<times> string list"
where
  "validate_metric L opts nid m side =
     (let name = py_get m ''name''
      in if blank_or_no_str L name
         then (None, [for_condition nid @ '', '' @ side @ '': metric.name must be a non-empty string''])
         else
          (let lname = lower L (strip L (py_str L name));
               e1 = (case allowed_metrics_set L opts of
                       None \<Rightarrow> []
                     | Some S \<Rightarrow>
                         if lname \<notin> set S
                         then [for_condition nid @ '', '' @ side @ '': metric.name '' @ sq
                               @ py_str L name @ sq @ '' is not in allowed_metrics'']
                         else []);
               args0 = (let a = py_get_default m ''args'' (JDict []) in if a = JNull then JDict [] else a);
               e2 = (if \<not> is_dict args0
                     then [for_condition nid @ '', '' @ side @ '': metric.args must be a dict when provided'']
                     else []);
               args = (case args0 of JDict a \<Rightarrow> a | _ \<Rightarrow> []);
               symb = py_get m ''symbol'';
               e3 = (if require_symbol_for_metrics opts \<and> blank_or_no_str L symb
                     then [for_condition nid @ '', '' @ side
                           @ '': metric.symbol is required and must be a non-empty string'']
                     else []);
               sym_norm = (if blank_or_no_str L symb then None else Some (upper L (strip L (py_str L symb))));
               e4 = (case (allowed_symbols_set L opts, sym_norm) of
                       (Some S, Some sn) \<Rightarrow>
                         if sn \<notin> set S
                         then [for_condition nid @ '', '' @ side @ '': symbol '' @ sq @ sn @ sq
                               @ '' is not in allowed_symbols'']
                         else []
                     | _ \<Rightarrow> []);
               e5 = (if lname \<in> set [''moving-average-price'', ''rsi''] \<and> bad_period (py_get args ''period'')
                     then [for_condition nid @ '', '' @ side @ '': metric '' @ sq @ py_str L name @ sq
                           @ '' requires args.period as positive int'']
                     else [])
           in (Some (Metric (py_str L name) args sym_norm), e1 @ e2 @ e3 @ e4 @ e5)))"

text \<open>\<^verbatim>\<open>_parse_operand(x, side)\<close>.  \<^verbatim>\<open>float(x)\<close> raises on an integer beyond the doubles.\<close>

definition parse_operand ::
  "pylib \<Rightarrow> cond_opts \<Rightarrow> string \<Rightarrow> json \<Rightarrow> string \<Rightarrow> py_error + (operand \<times> string list)"
where
  "parse_operand L opts nid x side =
     (if is_metric_object x
      then (case x of
              JDict m \<Rightarrow>
                (case validate_metric L opts nid m side of
                   (None, es) \<Rightarrow> Inr (Invalid, es)
                 | (Some parsed, es) \<Rightarrow> Inr (parsed, es))
            | _ \<Rightarrow> Inr (Invalid, []))
      else if is_number x
      then (case float_of_number x of Inl e \<Rightarrow> Inl e | Inr f \<Rightarrow> Inr (Literal f, []))
      else Inr (Invalid,
                [for_condition nid @ '', '' @ side
                 @ '': operand must be a metric object or a numeric literal'']))"

text \<open>\<^verbatim>\<open>lhs_norm\<close> and \<^verbatim>\<open>rhs_norm\<close>: an absent operand is \<^verbatim>\<open>{"kind": "invalid"}\<close>.\<close>

definition parse_side ::
  "pylib \<Rightarrow> cond_opts \<Rightarrow> string \<Rightarrow> (string \<times> json) list \<Rightarrow> string \<Rightarrow> py_error + (operand \<times> string list)"
where
  "parse_side L opts nid d side =
     (case map_of d side of
        Some x \<Rightarrow> parse_operand L opts nid x side
      | None \<Rightarrow> Inr (Invalid, []))"

text \<open>The checks of \<^verbatim>\<open>lhs\<close> and \<^verbatim>\<open>operator\<close> up to the membership of the operator.
  \<open>flag_check_for_operator d\<close> is the flag of the source; \<open>cond_op d\<close> is \<^verbatim>\<open>op\<close> after these
  statements when the flag is set.\<close>

definition flag_check_for_operator :: "(string \<times> json) list \<Rightarrow> bool" where
  "flag_check_for_operator d = (\<not> (\<not> has_key d ''lhs'' \<and> \<not> has_key d ''operator''))"

definition cond_op :: "(string \<times> json) list \<Rightarrow> string" where
  "cond_op d = (case py_get d ''operator'' of JStr s \<Rightarrow> s | _ \<Rightarrow> [])"

definition cond_type_errors :: "(string \<times> json) list \<Rightarrow> string list" where
  "cond_type_errors d =
     (if py_get d ''type'' \<noteq> JStr ''condition''
      then [''For condition '{node_id}', node.type must be 'condition'' @ sq] else [])"

definition cond_operator_errors :: "string \<Rightarrow> (string \<times> json) list \<Rightarrow> string list" where
  "cond_operator_errors nid d =
     (let e1 = (if \<not> ((\<not> has_key d ''lhs'' \<and> \<not> has_key d ''operator'')
                        \<or> (has_key d ''lhs'' \<and> has_key d ''operator''))
                then [for_condition nid
                      @ '', All two of condition.lhs, and condition.operator are required'']
                else []);
          e2 = (if flag_check_for_operator d \<and> \<not> is_str (py_get d ''operator'')
                then [''For condition '{node_id}', condition.operator must be a string'']
                else []);
          e3 = (if flag_check_for_operator d \<and> cond_op d \<notin> set CONDITION_OPS
                then [''condition.operator must be one of '' @ sorted_condition_ops_repr]
                else [])
      in e1 @ e2 @ e3)"

text \<open>The operator-specific constraints.\<close>

definition cond_constraint_errors :: "string \<Rightarrow> (string \<times> json) list \<Rightarrow> operand \<Rightarrow> operand \<Rightarrow> string list" where
  "cond_constraint_errors nid d lhs_norm rhs_norm =
     (let op = cond_op d;
          e1 = (if flag_check_for_operator d \<and> op \<in> set [''crosses_above'', ''crosses_below'']
                   \<and> (\<not> is_metric_kind lhs_norm \<or> \<not> is_metric_kind rhs_norm)
                then [for_condition nid @ '','' @ op
                      @ '' requires both lhs and rhs to be metrics (no literals)'']
                else []);
          e2 = (if flag_check_for_operator d \<and> op \<in> set [''gt'', ''gte'', ''lt'', ''lte'', ''eq'', ''neq'']
                   \<and> is_literal_kind lhs_norm \<and> is_literal_kind rhs_norm
                then [for_condition nid @ '', '' @ op
                      @ '' requires at least one operand to be a metric'']
                else [])
      in e1 @ e2)"

text \<open>The optional \<^verbatim>\<open>id\<close> and \<^verbatim>\<open>description\<close>.  A \<^verbatim>\<open>node_id\<close> that is no string is reset to
  \<^verbatim>\<open>None\<close>; \<open>cond_nid_after\<close> is its formatted value from there on.\<close>

definition cond_id_desc_errors :: "string \<Rightarrow> (string \<times> json) list \<Rightarrow> string list" where
  "cond_id_desc_errors nid d =
     (let node_id = py_get d ''id'';
          e1 = (if node_id \<noteq> JNull \<and> \<not> is_str node_id
                then [for_condition nid @ '', condition.id must be a string when provided'']
                else []);
          desc = py_get d ''description'';
          e2 = (if desc \<noteq> JNull \<and> \<not> is_str desc
                then [''For condition '{node_id}', condition.description must be a string when provided'']
                else [])
      in e1 @ e2)"

definition cond_nid_after :: "(string \<times> json) list \<Rightarrow> string" where
  "cond_nid_after d = (case py_get d ''id'' of JStr s \<Rightarrow> s | _ \<Rightarrow> ''None'')"

text \<open>\<^verbatim>\<open>_is_else_group(c)\<close> for the stripped, lowercased label.\<close>

definition is_else_group :: "pylib \<Rightarrow> string \<Rightarrow> json \<Rightarrow> bool" where
  "is_else_group L label_norm c =
     (case c of
        JDict cd \<Rightarrow>
          py_get cd ''type'' = JStr ''group''
          \<and> (case py_get cd ''description'' of
                JStr s \<Rightarrow> lower L (strip L s) = label_norm
              | _ \<Rightarrow> False)
      | _ \<Rightarrow> False)"

text \<open>\<^verbatim>\<open>[i for i, c in enumerate(children) if _is_else_group(c)]\<close>.\<close>

definition else_idxs :: "pylib \<Rightarrow> string \<Rightarrow> json list \<Rightarrow> nat list" where
  "else_idxs L label_norm children =
     filter (\<lambda>i. is_else_group L label_norm (children ! i)) [0 ..< length children]"

text \<open>\<^verbatim>\<open>children\<close> after its normalisation: \<^verbatim>\<open>None\<close> and any value that is no list count as the
  empty list.\<close>

definition cond_children :: "(string \<times> json) list \<Rightarrow> json list" where
  "cond_children d = (case py_get_default d ''children'' (JList []) of JList cs \<Rightarrow> cs | _ \<Rightarrow> [])"

definition else_node_errors :: "cond_opts \<Rightarrow> string \<Rightarrow> json list \<Rightarrow> nat \<Rightarrow> string list" where
  "else_node_errors opts nid children idx =
     (let else_node = (case children ! idx of JDict cd \<Rightarrow> cd | _ \<Rightarrow> []);
          e1 = (if else_must_be_last opts \<and> int idx \<noteq> int (length children) - 1
                then [for_condition nid @ '',Else branch must be the last direct child of the condition'']
                else []);
          eb0 = (let c = py_get_default else_node ''children'' (JList []) in if c = JNull then JList [] else c);
          e2 = (if \<not> is_list eb0
                then [for_condition nid @ '',Else branch 'children' must be an array''] else []);
          eb_children = (case eb0 of JList cs \<Rightarrow> cs | _ \<Rightarrow> []);
          e3 = (if else_require_children opts \<and> length eb_children = 0
                then [for_condition nid @ '',Else branch must contain at least one child''] else []);
          e4 = (if int (length children) - 1 < 1
                then [''Condition must have at least one non-Else child as the THEN branch''] else [])
      in e1 @ e2 @ e3 @ e4)"

definition else_branch_errors :: "pylib \<Rightarrow> cond_opts \<Rightarrow> string \<Rightarrow> (string \<times> json) list \<Rightarrow> string list" where
  "else_branch_errors L opts nid d =
     (if validate_else opts
      then (let c0 = (let c = py_get_default d ''children'' (JList []) in if c = JNull then JList [] else c);
                e1 = (if \<not> is_list c0
                      then [for_condition nid @ '', condition.children must be an array when provided'']
                      else []);
                children = cond_children d;
                label_norm = lower L (strip L (else_label opts));
                idxs = else_idxs L label_norm children;
                e2 = (if else_required opts \<and> idxs = []
                      then [for_condition nid
                            @ '', condition requires an Else branch group but none was found'']
                      else []);
                e3 = (if length idxs > 1
                      then [for_condition nid
                            @ '',condition has multiple Else branch groups; only one is allowed'']
                      else []);
                e4 = (if idxs \<noteq> [] then else_node_errors opts nid children (hd idxs) else [])
            in e1 @ e2 @ e3 @ e4)
      else [])"

definition validate_condition_node ::
  "pylib \<Rightarrow> cond_opts \<Rightarrow> json \<Rightarrow> py_error + (bool \<times> string list)"
where
  "validate_condition_node L opts node =
     (case node of
        JDict d \<Rightarrow>
          (let nid = py_str L (py_get d ''id'')
           in case parse_side L opts nid d ''lhs'' of
                Inl e \<Rightarrow> Inl e
              | Inr (lhs_norm, lhs_errors) \<Rightarrow>
                  (case parse_side L opts nid d ''rhs'' of
                     Inl e \<Rightarrow> Inl e
                   | Inr (rhs_norm, rhs_errors) \<Rightarrow>
                       finish (Inr (cond_type_errors d
                                    @ cond_operator_errors nid d
                                    @ lhs_errors
                                    @ rhs_errors
                                    @ cond_constraint_errors nid d lhs_norm rhs_norm
                                    @ cond_id_desc_errors nid d
                                    @ else_branch_errors L opts (cond_nid_after d) d))))
      | _ \<Rightarrow> Inr (False, [''condition node must be a dict'']))"

text \<open>
  Predicates on the operands of a condition node, for stating its properties.  \<open>float_ok\<close>
  excludes the one operand on which \<^verbatim>\<open>_parse_operand\<close> raises: an integer literal beyond the
  doubles.  \<open>metric_operand\<close> holds of the operands that \<^verbatim>\<open>_parse_operand\<close> returns with kind
  \<^verbatim>\<open>metric\<close>: a dict with a \<^verbatim>\<open>name\<close> that is a non-blank string.  An absent operand is neither a
  metric nor a number.
\<close>

definition float_ok :: "json \<Rightarrow> bool" where
  "float_ok x = (case x of JInt n \<Rightarrow> \<not> int_overflows n | _ \<Rightarrow> True)"

definition metric_operand :: "pylib \<Rightarrow> json \<Rightarrow> bool" where
  "metric_operand L x =
     (case x of JDict m \<Rightarrow> has_key m ''name'' \<and> \<not> blank_or_no_str L (py_get m ''name'')
              | _ \<Rightarrow> False)"

definition side_float_ok :: "(string \<times> json) list \<Rightarrow> string \<Rightarrow> bool" where
  "side_float_ok d side = (case map_of d side of Some x \<Rightarrow> float_ok x | None \<Rightarrow> True)"

definition side_is_metric :: "pylib \<Rightarrow> (string \<times> json) list \<Rightarrow> string \<Rightarrow> bool" where
  "side_is_metric L d side = (case map_of d side of Some x \<Rightarrow> metric_operand L x | None \<Rightarrow> False)"

definition side_is_number :: "(string \<times> json) list \<Rightarrow> string \<Rightarrow> bool" where
  "side_is_number d side = (case map_of d side of Some x \<Rightarrow> is_number x | None \<Rightarrow> False)"

text \<open>The condition nodes of the specification's examples and of the repository's tests.\<close>

definition crosses_literal_example :: "(string \<times> json) list" where
  "crosses_literal_example =
     [(''type'', JStr ''condition''), (''operator'', JStr ''crosses_above''),
      (''lhs'', JDict [(''name'', JStr ''current-price''), (''symbol'', JStr ''SPY'')]),
      (''rhs'', JFloat (Finite 100))]"

definition both_literals_example :: "(string \<times> json) list" where
  "both_literals_example =
     [(''type'', JStr ''condition''), (''operator'', JStr ''gt''),
      (''lhs'', JFloat (Finite 50)), (''rhs'', JFloat (Finite 100))]"

definition both_literals_huge :: "(string \<times> json) list" where
  "both_literals_huge =
     [(''type'', JStr ''condition''), (''operator'', JStr ''gt''),
      (''lhs'', JInt (10 ^ 400)), (''rhs'', JInt 1)]"

definition crosses_literal_huge :: "(string \<times> json) list" where
  "crosses_literal_huge =
     [(''type'', JStr ''condition''), (''operator'', JStr ''crosses_above''),
      (''lhs'', JDict [(''name'', JStr ''current-price''), (''symbol'', JStr ''SPY'')]),
      (''rhs'', JInt (10 ^ 400))]"



definition then_group :: json where
  "then_group = JDict [(''type'', JStr ''group''), (''description'', JStr ''then''),
                       (''children'', JList [JDict [(''type'', JStr ''order'')]])]"

definition else_group :: json where
  "else_group = JDict [(''type'', JStr ''group''), (''description'', JStr ''else''),
                       (''children'', JList [JDict [(''type'', JStr ''order'')]])]"

definition else_example :: "json list \<Rightarrow> (string \<times> json) list" where
  "else_example children =
     [(''type'', JStr ''condition''), (''operator'', JStr ''gt''),
      (''lhs'', JDict [(''name'', JStr ''current-price''), (''symbol'', JStr ''SPY'')]),
      (''rhs'', JFloat (Finite 100)),
      (''children'', JList children)]"

definition else_example_huge :: "json list \<Rightarrow> (string \<times> json) list" where
  "else_example_huge children =
     [(''type'', JStr ''condition''), (''operator'', JStr ''gt''),
      (''lhs'', JDict [(''name'', JStr ''current-price''), (''symbol'', JStr ''SPY'')]),
      (''rhs'', JInt (10 ^ 400)),
      (''children'', JList children)]"

text \<open>An else-group whose description differs from the default label \<^verbatim>\<open>Else branch\<close> in case and
  surrounding blanks.\<close>

definition else_group_mixed_case :: json where
  "else_group_mixed_case =
     JDict [(''type'', JStr ''group''), (''description'', JStr '' ELSE Branch ''),
            (''children'', JList [JDict [(''type'', JStr ''order'')]])]"

definition else_test_opts :: cond_opts where
  "else_test_opts = default_cond_opts\<lparr>else_label := ''else''\<rparr>"

text \<open>A child that is a dict with a non-empty list of \<^verbatim>\<open>children\<close>.\<close>

definition has_children :: "json \<Rightarrow> bool" where
  "has_children c =
     (case c of
        JDict cd \<Rightarrow> (case py_get cd ''children'' of JList cs \<Rightarrow> cs \<noteq> [] | _ \<Rightarrow> False)
      | _ \<Rightarrow> False)"

subsection \<open>\<^verbatim>\<open>validate_group_node\<close>\<close>

text \<open>The keyword arguments that the function reads (\<^verbatim>\<open>allowed_child_types\<close> is never used).\<close>

record group_opts =
  require_children :: bool
  require_description :: bool

definition default_group_opts :: group_opts where
  "default_group_opts = \<lparr>require_children = True, require_description = False\<rparr>"

definition SCHEMA_NODE_TYPES :: "string list" where
  "SCHEMA_NODE_TYPES = [''group'', ''condition'', ''filter'', ''order'', ''exit'', ''expression'', ''weight'']"

definition sorted_node_types_repr :: string where
  "sorted_node_types_repr =
     ''['' @ join '', '' (map (\<lambda>s. sq @ s @ sq) (sort SCHEMA_NODE_TYPES)) @ '']''"

text \<open>\<^verbatim>\<open>len(x) == 0\<close> and the iteration over \<^verbatim>\<open>x\<close>, for the values that have them: a list, a
  string (its characters) and a dict (its keys).\<close>

fun py_len_is_zero :: "json \<Rightarrow> py_error + bool" where
  "py_len_is_zero (JList xs) = Inr (xs = [])"
| "py_len_is_zero (JStr s) = Inr (s = [])"
| "py_len_is_zero (JDict d) = Inr (d = [])"
| "py_len_is_zero x = Inl TypeError"

fun py_iter :: "pylib \<Rightarrow> json \<Rightarrow> py_error + json list" where
  "py_iter L (JList xs) = Inr xs"
| "py_iter L (JStr s) = Inr (map JStr (chars L s))"
| "py_iter L (JDict d) = Inr (map (\<lambda>kv. JStr (fst kv)) d)"
| "py_iter L x = Inl TypeError"

definition group_head_errors :: "pylib \<Rightarrow> group_opts \<Rightarrow> (string \<times> json) list \<Rightarrow> string list" where
  "group_head_errors L opts d =
     (let e1 = (if py_get d ''type'' \<noteq> JStr ''group''
                then [''For order '{node_id}', node.type must be 'group'' @ sq] else []);
          node_id = py_get d ''id'';
          e2 = (if node_id \<noteq> JNull \<and> \<not> is_str node_id
                then [''For order '{node_id}', group.id must be a string when provided''] else []);
          desc = py_get d ''description'';
          e3 = (if require_description opts
                then (if blank_or_no_str L desc
                      then [''For order '{node_id}', group.description is required and must be a non-empty string'']
                      else [])
                else (if desc \<noteq> JNull \<and> \<not> is_str desc
                      then [''For order '{node_id}', group.description must be a string when provided'']
                      else []))
      in e1 @ e2 @ e3)"

text \<open>\<^verbatim>\<open>children = node.get("children", [])\<close>, with \<^verbatim>\<open>None\<close> replaced by the empty list.\<close>

definition group_children :: "(string \<times> json) list \<Rightarrow> json" where
  "group_children d =
     (let c = py_get_default d ''children'' (JList []) in if c = JNull then JList [] else c)"

definition group_children_errors :: "group_opts \<Rightarrow> (string \<times> json) list \<Rightarrow> py_error + string list" where
  "group_children_errors opts d =
     (let children = group_children d;
          e1 = (if require_children opts \<and> \<not> is_list children
                then [''For order '{node_id}', group.children must be an array when provided'']
                else []);
          e3 = (if \<not> is_list children
                then [''For order '{node_id}', group.children must be an array if present'']
                else [])
      in if require_children opts
         then (case py_len_is_zero children of
                 Inl e \<Rightarrow> Inl e
               | Inr none \<Rightarrow>
                   Inr (e1 @ (if none
                              then [''For order '{node_id}', group must contain at least one child'']
                              else []) @ e3))
         else Inr (e1 @ e3))"

text \<open>
  The loop over \<^verbatim>\<open>enumerate(children)\<close>.  For a child that is no dict the message is appended
  and \<^verbatim>\<open>child.get\<close> raises; a \<^verbatim>\<open>type\<close> that is a list or a dict raises in the set membership.
\<close>

fun group_child_loop :: "pylib \<Rightarrow> string \<Rightarrow> nat \<Rightarrow> json list \<Rightarrow> py_error + string list" where
  "group_child_loop L nid idx [] = Inr []"
| "group_child_loop L nid idx (JDict cd # rest) =
     (let ctype = py_get cd ''type'';
          e1 = (if \<not> is_str ctype
                then [for_order nid @ ''group.child['' @ str_of_nat idx @ ''].type must be a string'']
                else [])
      in if \<not> hashable ctype then Inl TypeError
         else seq_errors
                [Inr (e1 @ (if \<not> in_str_set ctype SCHEMA_NODE_TYPES
                            then [for_order nid @ ''group.child['' @ str_of_nat idx @ ''].type '' @ sq
                                  @ py_str L ctype @ sq @ '' is not allowed here (allowed: ''
                                  @ sorted_node_types_repr @ '')'']
                            else [])),
                 group_child_loop L nid (Suc idx) rest])"
| "group_child_loop L nid idx (child # rest) = Inl AttributeError"

definition validate_group_node ::
  "pylib \<Rightarrow> group_opts \<Rightarrow> json \<Rightarrow> py_error + (bool \<times> string list)"
where
  "validate_group_node L opts node =
     (case node of
        JDict d \<Rightarrow>
          finish (seq_errors
            [Inr (group_head_errors L opts d),
             group_children_errors opts d,
             (case py_iter L (group_children d) of
                Inl e \<Rightarrow> Inl e
              | Inr children \<Rightarrow> group_child_loop L (py_str L (py_get d ''id'')) 0 children)])
      | _ \<Rightarrow> Inr (False, [''group node must be a dict'']))"

subsection \<open>\<^verbatim>\<open>validate_filter_node\<close>\<close>

record filter_opts =
  filter_allowed_metrics :: "string list option"
  filter_allowed_symbols :: "string list option"
  require_universe_nonempty :: bool

definition default_filter_opts :: filter_opts where
  "default_filter_opts =
     \<lparr>filter_allowed_metrics = None, filter_allowed_symbols = None,
      require_universe_nonempty = True\<rparr>"

text \<open>The module constants \<^verbatim>\<open>allowed_metrics\<close> (the default allowed set) and
  \<^verbatim>\<open>METRICS_REQUIRE_PERIOD\<close>.\<close>

definition allowed_metrics :: "string list" where
  "allowed_metrics =
     [''current-price'', ''sma'', ''ema'', ''rsi'', ''cumulative-return'', ''moving-avg-price'',
      ''moving-avg-return'', ''std-dev-price'', ''std-dev-return'', ''max-drawdown'',
      ''volatility'', ''returns'', ''drawdown'', ''vix'', ''month'', ''day-of-week'',
      ''day-of-month'', ''day-of-year'', ''moving-average-price'',
      ''exponential-moving-average-price'', ''standard-deviation-price'']"

definition METRICS_REQUIRE_PERIOD :: "string list" where
  "METRICS_REQUIRE_PERIOD =
     [''sma'', ''ema'', ''rsi'', ''moving-avg-price'', ''moving-avg-return'', ''std-dev-price'',
      ''std-dev-return'', ''volatility'', ''returns'', ''drawdown'']"

definition for_filter :: "string \<Rightarrow> string" where
  "for_filter nid = ''For filter '' @ sq @ nid @ sq @ '', ''"

text \<open>The formatted \<^verbatim>\<open>node_id\<close> after the check of \<^verbatim>\<open>id\<close>, which resets it to \<^verbatim>\<open>None\<close> when it is
  no string.\<close>

definition filter_nid_after :: "(string \<times> json) list \<Rightarrow> string" where
  "filter_nid_after d = (case py_get d ''id'' of JStr s \<Rightarrow> s | _ \<Rightarrow> ''None'')"

definition filter_head_errors :: "pylib \<Rightarrow> (string \<times> json) list \<Rightarrow> string list" where
  "filter_head_errors L d =
     (let nid = py_str L (py_get d ''id'');
          e1 = (if py_get d ''type'' \<noteq> JStr ''filter''
                then [for_filter nid @ ''node.type must be 'filter'' @ sq] else []);
          node_id = py_get d ''id'';
          e2 = (if node_id \<noteq> JNull \<and> \<not> is_str node_id
                then [for_filter nid @ ''filter.id must be a string when provided''] else []);
          desc = py_get d ''description'';
          e3 = (if desc \<noteq> JNull \<and> \<not> is_str desc
                then [for_filter (filter_nid_after d) @ ''filter.description must be a string when provided'']
                else [])
      in e1 @ e2 @ e3)"

text \<open>The normalised universe: stripped, uppercased, without empty strings and duplicates, in
  the order of first occurrence.\<close>

fun normalize_universe :: "pylib \<Rightarrow> string list \<Rightarrow> string list \<Rightarrow> string list" where
  "normalize_universe L seen [] = []"
| "normalize_universe L seen (s # rest) =
     (let symb = upper L (strip L s)
      in if symb \<noteq> [] \<and> symb \<notin> set seen
         then symb # normalize_universe L (symb # seen) rest
         else normalize_universe L seen rest)"

definition filter_raw_universe :: "(string \<times> json) list \<Rightarrow> json" where
  "filter_raw_universe d =
     (let u = py_get_default d ''universe'' (JList []) in if u = JNull then JList [] else u)"

definition filter_universe_ok :: "(string \<times> json) list \<Rightarrow> bool" where
  "filter_universe_ok d = (case filter_raw_universe d of JList xs \<Rightarrow> all_str xs | _ \<Rightarrow> False)"

definition filter_universe :: "pylib \<Rightarrow> (string \<times> json) list \<Rightarrow> string list" where
  "filter_universe L d =
     (if filter_universe_ok d
      then (case filter_raw_universe d of
              JList xs \<Rightarrow> normalize_universe L [] (map (\<lambda>x. case x of JStr s \<Rightarrow> s | _ \<Rightarrow> []) xs)
            | _ \<Rightarrow> [])
      else [])"

definition filter_universe_errors :: "pylib \<Rightarrow> filter_opts \<Rightarrow> string \<Rightarrow> (string \<times> json) list \<Rightarrow> string list" where
  "filter_universe_errors L opts nid d =
     (let e1 = (if \<not> filter_universe_ok d
                then [for_filter nid @ ''filter.universe must be an array of strings''] else []);
          universe = filter_universe L d;
          e2 = (if require_universe_nonempty opts \<and> length universe = 0
                then [for_filter nid @ ''filter.universe must contain at least one symbol''] else []);
          e3 = (case filter_allowed_symbols opts of
                  None \<Rightarrow> []
                | Some allowed \<Rightarrow>
                    (let allowed_set = map (\<lambda>a. upper L (strip L a)) allowed;
                         invalid = filter (\<lambda>s. s \<notin> set allowed_set) universe
                     in if invalid \<noteq> []
                        then [for_filter nid @ ''filter.universe contains symbols not allowed: ''
                              @ join '', '' invalid]
                        else []))
      in e1 @ e2 @ e3)"

definition filter_select_errors :: "pylib \<Rightarrow> string \<Rightarrow> (string \<times> json) list \<Rightarrow> py_error + string list" where
  "filter_select_errors L nid d =
     (let select = py_get d ''select''
      in if \<not> hashable select then Inl TypeError
         else
          (let e1 = (if \<not> in_str_set select [''top'', ''bottom'', ''middle'']
                     then [for_filter nid @ ''filter.select must be one of: 'top', 'bottom', 'middle'' @ sq]
                     else []);
               selection0 = py_get_default d ''selection'' (JDict []);
               e2 = (if \<not> is_dict selection0
                     then [for_filter nid @ ''filter.selection must be an object with at least 'n'' @ sq]
                     else []);
               selection = (case selection0 of JDict s \<Rightarrow> s | _ \<Rightarrow> []);
               n = py_get selection ''n'';
               e3 = (if bad_period n
                     then [for_filter nid @ ''filter.selection.n must be a positive integer'']
                     else []);
               size = length (filter_universe L d);
               e4 = (if is_int n \<and> int_of n > int size \<and> size > 0
                     then [for_filter nid @ ''filter.selection.n ('' @ py_str L n
                           @ '') cannot exceed universe size ('' @ str_of_nat size @ '')'']
                     else [])
           in Inr (e1 @ e2 @ e3 @ e4)))"

text \<open>The checks of \<^verbatim>\<open>metric\<close>.  When the name is rejected, \<^verbatim>\<open>metric_name\<close> keeps the raw value, and
  the membership \<^verbatim>\<open>metric_name in METRICS_REQUIRE_PERIOD\<close> raises on a list or a dict.\<close>

definition filter_metric_errors ::
  "pylib \<Rightarrow> filter_opts \<Rightarrow> string \<Rightarrow> (string \<times> json) list \<Rightarrow> py_error + string list"
where
  "filter_metric_errors L opts nid d =
     (case py_get d ''metric'' of
        JDict metric \<Rightarrow>
          (let name0 = py_get metric ''name'';
               metric_name = (if blank_or_no_str L name0 then name0
                              else JStr (lower L (strip L (py_str L name0))));
               allowed_set = (case filter_allowed_metrics opts of None \<Rightarrow> allowed_metrics
                                                                | Some ms \<Rightarrow> ms);
               e1 = (if blank_or_no_str L name0
                     then [for_filter nid @ ''filter.metric.name must be a non-empty string'']
                     else if \<not> in_str_set metric_name allowed_set
                     then [for_filter nid @ ''filter.metric.name '' @ sq @ py_str L metric_name @ sq
                           @ '' is not allowed'']
                     else []);
               e2 = (if has_key metric ''symbol'' \<and> \<not> blank_or_no_str L (py_get metric ''symbol'')
                     then [for_filter nid @ ''filter.metric.symbol should not be provided for a filter; metric applies to each universe symbol'']
                     else []);
               args0 = (let a = py_get_default metric ''args'' (JDict []) in if a = JNull then JDict [] else a);
               e3 = (if \<not> is_dict args0
                     then [for_filter nid @ ''filter.metric.args must be an object when provided'']
                     else []);
               metric_args = (case args0 of JDict a \<Rightarrow> a | _ \<Rightarrow> [])
           in if \<not> hashable metric_name then Inl TypeError
              else Inr (e1 @ e2 @ e3 @
                        (if in_str_set metric_name METRICS_REQUIRE_PERIOD
                            \<and> bad_period (py_get metric_args ''period'')
                         then [for_filter nid @ ''filter.metric '' @ sq @ py_str L metric_name @ sq
                               @ '' requires 'args.period' as a positive integer'']
                         else [])))
      | _ \<Rightarrow> Inr [for_filter nid @ ''filter.metric must be an object''])"

text \<open>For a node that is no dict the source reads \<^verbatim>\<open>return False. errors\<close>: the attribute
  \<^verbatim>\<open>errors\<close> of \<^verbatim>\<open>False\<close>, which raises \<^verbatim>\<open>AttributeError\<close>.\<close>

definition validate_filter_node ::
  "pylib \<Rightarrow> filter_opts \<Rightarrow> json \<Rightarrow> py_error + (bool \<times> string list)"
where
  "validate_filter_node L opts node =
     (case node of
        JDict d \<Rightarrow>
          finish (seq_errors
            [Inr (filter_head_errors L d),
             Inr (filter_universe_errors L opts (filter_nid_after d) d),
             filter_select_errors L (filter_nid_after d) d,
             filter_metric_errors L opts (filter_nid_after d) d])
      | _ \<Rightarrow> Inl AttributeError)"

subsection \<open>\<^verbatim>\<open>validate_weight_node\<close>\<close>

definition ALLOCATION_METHODS :: "string list" where
  "ALLOCATION_METHODS = [''explicit_weights'', ''inverse_volatility'']"

text \<open>The first statement is \<^verbatim>\<open>node.get("type")\<close>, before the test that the node is a dict, so a
  node that is no dict raises \<^verbatim>\<open>AttributeError\<close>.\<close>

definition validate_weight_node :: "pylib \<Rightarrow> json \<Rightarrow> py_error + (bool \<times> string list)" where
  "validate_weight_node L node =
     (case node of
        JDict d \<Rightarrow>
          (let nid = py_str L (py_get d ''id'');
               e1 = (if py_get d ''type'' \<noteq> JStr ''weight''
                     then [''For weight '' @ nid @ '', Weight node must be a type 'weight'' @ sq]
                     else []);
               allocation_method = py_get d ''allocation_method'';
               e2 = (if allocation_method = JNull
                     then [''For weight '' @ nid @ '', Weight node must have an allocation_method'']
                     else if \<not> in_str_set allocation_method ALLOCATION_METHODS
                     then [''For weight '' @ nid @ '', Weight node allocation_method must be one of: ''
                           @ join '', '' ALLOCATION_METHODS]
                     else [])
           in finish (Inr (e1 @ e2)))
      | _ \<Rightarrow> Inl AttributeError)"

subsection \<open>Whole-tree validation\<close>

text \<open>
  \<^verbatim>\<open>handle_validation_errors\<close> prints every error of an invalid node and calls \<^verbatim>\<open>sys.exit()\<close>.
  The outcome of the traversal is therefore one of: it returned (nothing was printed), the
  process exited after printing the given lines, or an exception escaped.
\<close>

datatype outcome = Returned | Exited "string list" | Raised py_error

definition handle_validation_errors :: "bool \<Rightarrow> string list \<Rightarrow> outcome" where
  "handle_validation_errors is_valid errors =
     (if \<not> is_valid then Exited (map (\<lambda>error. ''Error: '' @ error) errors) else Returned)"

text \<open>
  The validator that \<^verbatim>\<open>check_node_type_and_validate\<close> selects for a dict by its \<^verbatim>\<open>type\<close>, with the
  arguments it passes (the condition and group validators get their defaults, the filter
  validator gets the allowed symbols).  An unknown type is the invalid result with the one
  message "Unknown node type".
\<close>

definition node_validation :: "pylib \<Rightarrow> (string \<times> json) list \<Rightarrow> string list \<Rightarrow> py_error + (bool \<times> string list)" where
  "node_validation L d allowed_symbols =
     (let type_of_node = py_get d ''type''
      in if type_of_node = JStr ''condition'' then validate_condition_node L default_cond_opts (JDict d)
         else if type_of_node = JStr ''group'' then validate_group_node L default_group_opts (JDict d)
         else if type_of_node = JStr ''order'' then validate_order_node L (JDict d) allowed_symbols
         else if type_of_node = JStr ''filter''
           then validate_filter_node L (default_filter_opts\<lparr>filter_allowed_symbols := Some allowed_symbols\<rparr>) (JDict d)
         else if type_of_node = JStr ''weight'' then validate_weight_node L (JDict d)
         else Inr (False, [''Unknown node type: '' @ py_str L type_of_node]))"

definition check_node_type_and_validate :: "pylib \<Rightarrow> json \<Rightarrow> string list \<Rightarrow> outcome" where
  "check_node_type_and_validate L data allowed_symbols =
     (case data of
        JDict d \<Rightarrow>
          (case node_validation L d allowed_symbols of
             Inl e \<Rightarrow> Raised e
           | Inr (is_valid, errors) \<Rightarrow> handle_validation_errors is_valid errors)
      | _ \<Rightarrow> Raised AttributeError)"

text \<open>Sequencing of two steps of the traversal: the second runs only when the first returned.\<close>

definition and_then :: "outcome \<Rightarrow> outcome \<Rightarrow> outcome" where
  "and_then a b = (case a of Returned \<Rightarrow> b | _ \<Rightarrow> a)"

lemma size_map_of_value:
  "map_of d k = Some v \<Longrightarrow> size v < size (JDict d)"
  by (induction d) (auto split: if_splits)

text \<open>
  \<^verbatim>\<open>trace_json_data_recursive\<close>.  \<open>trace_items\<close> is its loop over a list of children.  On a root
  that is no dict, \<^verbatim>\<open>'children' in data\<close> is a membership test on a list, a substring test on a
  string and a \<^verbatim>\<open>TypeError\<close> otherwise; when it holds, \<^verbatim>\<open>data['children']\<close> raises
  \<^verbatim>\<open>TypeError\<close>, and when it does not, \<^verbatim>\<open>data.get\<close> raises \<^verbatim>\<open>AttributeError\<close>.
\<close>

function trace_json_data_recursive :: "pylib \<Rightarrow> json \<Rightarrow> string list \<Rightarrow> outcome"
  and trace_items :: "pylib \<Rightarrow> json list \<Rightarrow> string list \<Rightarrow> outcome"
where
  "trace_json_data_recursive L data allowed_symbols =
     (case data of
        JDict d \<Rightarrow>
          (case map_of d ''children'' of
             Some (JList items) \<Rightarrow> trace_items L items allowed_symbols
           | Some (JDict cd) \<Rightarrow>
               and_then (check_node_type_and_validate L (JDict cd) allowed_symbols)
                        (trace_json_data_recursive L (JDict cd) allowed_symbols)
           | Some other \<Rightarrow> Returned
           | None \<Rightarrow> check_node_type_and_validate L data allowed_symbols)
      | JList xs \<Rightarrow> if JStr ''children'' \<in> set xs then Raised TypeError else Raised AttributeError
      | JStr s \<Rightarrow> if sublist ''children'' s then Raised TypeError else Raised AttributeError
      | _ \<Rightarrow> Raised TypeError)"
| "trace_items L [] allowed_symbols = Returned"
| "trace_items L (item # rest) allowed_symbols =
     (if is_dict item
      then and_then (check_node_type_and_validate L item allowed_symbols)
             (and_then (trace_json_data_recursive L item allowed_symbols)
                       (trace_items L rest allowed_symbols))
      else trace_items L rest allowed_symbols)"
  by pat_completeness auto
termination
proof (relation "measure (\<lambda>x. case x of Inl (L, data, a) \<Rightarrow> size data
                                     | Inr (L, items, a) \<Rightarrow> size_list size items)")
  show "wf (measure (\<lambda>x. case x of Inl (L, data, a) \<Rightarrow> size data
                                     | Inr (L, items, a) \<Rightarrow> size_list size items))"
    by simp
next
  fix L data allowed_symbols d v items
  assume "data = JDict d" and "map_of d ''children'' = Some v" and "v = JList items"
  then show "(Inr (L, items, allowed_symbols), Inl (L, data, allowed_symbols))
               \<in> measure (\<lambda>x. case x of Inl (L, data, a) \<Rightarrow> size data
                                     | Inr (L, items, a) \<Rightarrow> size_list size items)"
    using size_map_of_value[of d "''children''" v] by simp
next
  fix L data allowed_symbols d v cd
  assume "data = JDict d" and "map_of d ''children'' = Some v" and "v = JDict cd"
  then show "(Inl (L, JDict cd, allowed_symbols), Inl (L, data, allowed_symbols))
               \<in> measure (\<lambda>x. case x of Inl (L, data, a) \<Rightarrow> size data
                                     | Inr (L, items, a) \<Rightarrow> size_list size items)"
    using size_map_of_value[of d "''children''" v] by simp
next
  fix L item rest allowed_symbols
  show "(Inl (L, item, allowed_symbols), Inr (L, item # rest, allowed_symbols))
               \<in> measure (\<lambda>x. case x of Inl (L, data, a) \<Rightarrow> size data
                                     | Inr (L, items, a) \<Rightarrow> size_list size items)"
    by simp
next
  fix L item rest allowed_symbols
  show "(Inr (L, rest, allowed_symbols), Inr (L, item # rest, allowed_symbols))
               \<in> measure (\<lambda>x. case x of Inl (L, data, a) \<Rightarrow> size data
                                     | Inr (L, items, a) \<Rightarrow> size_list size items)"
    by simp
next
  fix L item rest allowed_symbols
  show "(Inr (L, rest, allowed_symbols), Inr (L, item # rest, allowed_symbols))
               \<in> measure (\<lambda>x. case x of Inl (L, data, a) \<Rightarrow> size data
                                     | Inr (L, items, a) \<Rightarrow> size_list size items)"
    by simp
qed

declare trace_json_data_recursive.simps [simp del]

definition validate_logic :: "pylib \<Rightarrow> json \<Rightarrow> string list \<Rightarrow> outcome" where
  "validate_logic L logic allowed_symbols = trace_json_data_recursive L logic allowed_symbols"




text \<open>Inputs on which the validators and the traversal are run below.\<close>

definition order_null_weight :: json where
  "order_null_weight =
     JDict [(''type'', JStr ''order''), (''side'', JStr ''long''),
            (''weights'', JDict [(''SPY'', JNull)])]"

definition order_text_weight :: json where
  "order_text_weight =
     JDict [(''type'', JStr ''order''), (''side'', JStr ''long''),
            (''weights'', JDict [(''SPY'', JStr ''heavy'')])]"

definition group_number_child :: json where
  "group_number_child = JDict [(''type'', JStr ''group''), (''children'', JList [JInt 5])]"

definition condition_huge_literal :: json where
  "condition_huge_literal =
     JDict [(''type'', JStr ''condition''), (''operator'', JStr ''gt''),
            (''lhs'', JDict [(''name'', JStr ''current-price''), (''symbol'', JStr ''SPY'')]),
            (''rhs'', JInt (10 ^ 400))]"




definition unknown_root :: json where
  "unknown_root = JDict [(''type'', JStr ''bogus''), (''children'', JList [])]"

definition invalid_order_root :: json where
  "invalid_order_root =
     JDict [(''type'', JStr ''order''), (''side'', JStr ''sideways''),
            (''children'', JList [JDict [(''type'', JStr ''weight''),
                                         (''allocation_method'', JStr ''explicit_weights'')]])]"

definition unknown_child :: json where
  "unknown_child = JDict [(''children'', JList [JDict [(''type'', JStr ''bogus'')]])]"




section \<open>The indicator registry\<close>

text \<open>
  \<^verbatim>\<open>generators/indicator_generator.py\<close>, class \<^verbatim>\<open>IndicatorGenerator\<close>.  Its state is the dict
  \<^verbatim>\<open>indicators_used\<close> (key to stored configuration, in insertion order) and the set
  \<^verbatim>\<open>custom_methods_needed\<close>.
\<close>

record indicator_config =
  cfg_name :: string
  cfg_symbol :: string
  cfg_args :: json

record registry =
  indicators_used :: "(string \<times> indicator_config) list"
  custom_methods_needed :: "string set"

definition init_registry :: registry where
  "init_registry = \<lparr>indicators_used = [], custom_methods_needed = {}\<rparr>"

text \<open>\<^verbatim>\<open>reset_variables\<close> clears both.\<close>

definition reset_variables :: "registry \<Rightarrow> registry" where
  "reset_variables r = r\<lparr>indicators_used := [], custom_methods_needed := {}\<rparr>"

definition IMPLEMENTED_INDICATORS :: "string list" where
  "IMPLEMENTED_INDICATORS =
     [''rsi'', ''current-price'', ''cumulative-return'', ''moving-average-price'',
      ''exponential-moving-average-price'', ''moving-average-return'',
      ''standard-deviation-price'', ''standard-deviation-return'', ''max-drawdown'',
      ''volatility'', ''returns'', ''drawdown'', ''month'', ''day-of-week'',
      ''day-of-month'', ''day-of-year'']"

definition CUSTOM_INDICATORS :: "string list" where
  "CUSTOM_INDICATORS = [''max-drawdown'', ''drawdown'', ''moving-average-return'']"

text \<open>\<^verbatim>\<open>d[k] = v\<close> on an insertion-ordered dict: an existing key keeps its place.\<close>

fun dict_set :: "'k \<Rightarrow> 'v \<Rightarrow> ('k \<times> 'v) list \<Rightarrow> ('k \<times> 'v) list" where
  "dict_set k v [] = [(k, v)]"
| "dict_set k v ((k', v') # rest) =
     (if k' = k then (k, v) # rest else (k', v') # dict_set k v rest)"

text \<open>\<^verbatim>\<open>k in x\<close> and \<^verbatim>\<open>x[k]\<close> for a string \<open>k\<close>: on a dict the key test and the lookup; on a list the
  membership test, and the subscript raises; on a string the substring test, and the subscript
  raises; on any other value the test itself raises.\<close>

fun py_contains :: "string \<Rightarrow> json \<Rightarrow> py_error + bool" where
  "py_contains k (JDict d) = Inr (has_key d k)"
| "py_contains k (JList xs) = Inr (JStr k \<in> set xs)"
| "py_contains k (JStr s) = Inr (sublist k s)"
| "py_contains k x = Inl TypeError"

fun py_subscript :: "json \<Rightarrow> string \<Rightarrow> py_error + json" where
  "py_subscript (JDict d) k = Inr (py_get d k)"
| "py_subscript x k = Inl TypeError"

text \<open>\<^verbatim>\<open>x.upper()\<close> and \<^verbatim>\<open>x.lower()\<close> on a value: only a string has the method.\<close>

fun py_upper :: "pylib \<Rightarrow> json \<Rightarrow> py_error + string" where
  "py_upper L (JStr s) = Inr (upper L s)"
| "py_upper L x = Inl AttributeError"

fun py_lower :: "pylib \<Rightarrow> json \<Rightarrow> py_error + string" where
  "py_lower L (JStr s) = Inr (lower L s)"
| "py_lower L x = Inl AttributeError"

text \<open>One optional part of the key: \<^verbatim>\<open>if k in args: key_parts.append(pre + str(args[k]))\<close>.\<close>

definition key_part :: "pylib \<Rightarrow> string \<Rightarrow> string \<Rightarrow> json \<Rightarrow> py_error + string list" where
  "key_part L pre k args =
     (case py_contains k args of
        Inl e \<Rightarrow> Inl e
      | Inr False \<Rightarrow> Inr []
      | Inr True \<Rightarrow>
          (case py_subscript args k of
             Inl e \<Rightarrow> Inl e
           | Inr v \<Rightarrow> Inr [pre @ py_str L v]))"

definition fast_slow_part :: "pylib \<Rightarrow> json \<Rightarrow> py_error + string list" where
  "fast_slow_part L args =
     (case py_contains ''fast'' args of
        Inl e \<Rightarrow> Inl e
      | Inr False \<Rightarrow> Inr []
      | Inr True \<Rightarrow>
          (case py_contains ''slow'' args of
             Inl e \<Rightarrow> Inl e
           | Inr False \<Rightarrow> Inr []
           | Inr True \<Rightarrow>
               (case py_subscript args ''fast'' of
                  Inl e \<Rightarrow> Inl e
                | Inr f \<Rightarrow>
                    (case py_subscript args ''slow'' of
                       Inl e \<Rightarrow> Inl e
                     | Inr s \<Rightarrow> Inr [py_str L f, py_str L s]))))"

definition create_indicator_key :: "pylib \<Rightarrow> string \<Rightarrow> json \<Rightarrow> json \<Rightarrow> py_error + string" where
  "create_indicator_key L name symbol args =
     (case (if truthy symbol
            then (case py_upper L symbol of Inl e \<Rightarrow> Inl e | Inr u \<Rightarrow> Inr [name, u])
            else Inr [name]) of
        Inl e \<Rightarrow> Inl e
      | Inr key_parts \<Rightarrow>
          (case seq_errors [key_part L [] ''period'' args,
                            key_part L ''s'' ''smoothing'' args,
                            fast_slow_part L args] of
             Inl e \<Rightarrow> Inl e
           | Inr extra \<Rightarrow> Inr (join ''_'' (key_parts @ extra))))"

text \<open>The three values that \<^verbatim>\<open>_process_indicator\<close> reads from the configuration.\<close>

definition config_name :: "pylib \<Rightarrow> (string \<times> json) list \<Rightarrow> string" where
  "config_name L c = lower L (py_str L (py_get_default c ''name'' (JStr ''unknown'')))"

definition config_symbol :: "(string \<times> json) list \<Rightarrow> json" where
  "config_symbol c = py_get c ''symbol''"

definition config_args :: "(string \<times> json) list \<Rightarrow> json" where
  "config_args c = py_get_default c ''args'' (JDict [])"

definition process_indicator :: "pylib \<Rightarrow> registry \<Rightarrow> json \<Rightarrow> py_error + registry" where
  "process_indicator L r indicator_config =
     (case indicator_config of
        JDict c \<Rightarrow>
          (let name = config_name L c; symbol = config_symbol c; args = config_args c
           in if name \<notin> set IMPLEMENTED_INDICATORS then Inr r
              else
               (case create_indicator_key L name symbol args of
                  Inl e \<Rightarrow> Inl e
                | Inr indicator_key \<Rightarrow>
                    (case (if symbol \<noteq> JNull
                           then (case py_upper L symbol of
                                   Inl e \<Rightarrow> Inl e
                                 | Inr u \<Rightarrow>
                                     Inr (r\<lparr>indicators_used :=
                                              dict_set indicator_key
                                                \<lparr>cfg_name = name, cfg_symbol = u, cfg_args = args\<rparr>
                                                (indicators_used r)\<rparr>))
                           else Inr r) of
                       Inl e \<Rightarrow> Inl e
                     | Inr r1 \<Rightarrow>
                         Inr (if name \<in> set CUSTOM_INDICATORS
                              then r1\<lparr>custom_methods_needed := insert name (custom_methods_needed r1)\<rparr>
                              else r1))))
      | _ \<Rightarrow> Inl AttributeError)"

text \<open>\<^verbatim>\<open>s.replace('-', '_')\<close>.\<close>

definition dash_to_underscore :: "string \<Rightarrow> string" where
  "dash_to_underscore s = map (\<lambda>c. if c = CHR ''-'' then CHR ''_'' else c) s"

text \<open>\<^verbatim>\<open>args.get('period', default)\<close>, formatted; only a dict has \<^verbatim>\<open>get\<close>.\<close>

definition period_or :: "pylib \<Rightarrow> json \<Rightarrow> int \<Rightarrow> py_error + string" where
  "period_or L args dflt =
     (case args of
        JDict a \<Rightarrow> Inr (py_str L (py_get_default a ''period'' (JInt dflt)))
      | _ \<Rightarrow> Inl AttributeError)"

text \<open>The variable suffix that \<^verbatim>\<open>get_indicator_value_code\<close> uses for a standard indicator with a
  period.\<close>

definition standard_suffix :: "json \<Rightarrow> string \<Rightarrow> string" where
  "standard_suffix indicator_name clean_name =
     (if indicator_name = JStr ''moving-average-price'' then ''sma''
      else if indicator_name = JStr ''exponential-moving-average-price'' then ''ema''
      else if indicator_name = JStr ''rsi'' then ''rsi''
      else if indicator_name = JStr ''standard-deviation-price'' then ''std''
      else if indicator_name = JStr ''volatility'' then ''std''
      else if indicator_name \<in> set [JStr ''cumulative-return'', JStr ''returns''] then ''roc''
      else if indicator_name = JStr ''standard-deviation-return'' then ''std_dev_return''
      else clean_name)"

text \<open>The access expression, computed from the raw \<^verbatim>\<open>name\<close>, \<^verbatim>\<open>symbol\<close> (default \<^verbatim>\<open>''\<close>) and \<^verbatim>\<open>args\<close>
  (default \<^verbatim>\<open>{}\<close>) of the configuration.\<close>

definition value_code :: "pylib \<Rightarrow> (string \<times> json) list \<Rightarrow> py_error + string" where
  "value_code L c =
     (let indicator_name = py_get_default c ''name'' (JStr []);
          symbol = py_get_default c ''symbol'' (JStr []);
          args = py_get_default c ''args'' (JDict [])
      in if indicator_name = JStr ''month'' then Inr ''self.time.month''
         else if indicator_name = JStr ''day-of-week'' then Inr ''self.time.weekday()''
         else if indicator_name = JStr ''day-of-month'' then Inr ''self.time.day''
         else if indicator_name = JStr ''day-of-year'' then Inr ''self.time.timetuple().tm_yday''
         else if indicator_name = JStr ''current-price''
           then (case py_upper L symbol of
                   Inl e \<Rightarrow> Inl e
                 | Inr u \<Rightarrow> Inr (''self.securities['' @ sq @ u @ sq @ ''].price''))
         else if indicator_name \<in> set [JStr ''max-drawdown'', JStr ''drawdown'', JStr ''moving-average-return'']
           then (case py_lower L symbol of
                   Inl e \<Rightarrow> Inl e
                 | Inr lsym \<Rightarrow>
                     (case period_or L args (if indicator_name = JStr ''moving-average-return'' then 20 else 252) of
                        Inl e \<Rightarrow> Inl e
                      | Inr p \<Rightarrow>
                          Inr (''(self.'' @ dash_to_underscore lsym @ ''_''
                               @ (if indicator_name = JStr ''max-drawdown'' then ''max_drawdown''
                                  else if indicator_name = JStr ''drawdown'' then ''drawdown''
                                  else ''moving_avg_return'')
                               @ ''_'' @ p @ ''.current.value)'')))
         else (case py_lower L symbol of
                 Inl e \<Rightarrow> Inl e
               | Inr lsym \<Rightarrow>
                   (case py_lower L indicator_name of
                      Inl e \<Rightarrow> Inl e
                    | Inr lname \<Rightarrow>
                        (case py_contains ''period'' args of
                           Inl e \<Rightarrow> Inl e
                         | Inr True \<Rightarrow>
                             (case py_subscript args ''period'' of
                                Inl e \<Rightarrow> Inl e
                              | Inr p \<Rightarrow>
                                  Inr (''(self.'' @ dash_to_underscore lsym @ ''_''
                                       @ standard_suffix indicator_name (dash_to_underscore lname)
                                       @ ''_'' @ py_str L p @ ''.current.value)''))
                         | Inr False \<Rightarrow>
                             Inr (''(self.'' @ dash_to_underscore lsym @ ''_'' @ dash_to_underscore lname
                                  @ ''.current.value)'')))))"

text \<open>\<^verbatim>\<open>get_indicator_value_code\<close>: register the configuration, then build the expression.  The
  result is the expression and the registry after the call.\<close>

definition get_indicator_value_code :: "pylib \<Rightarrow> registry \<Rightarrow> json \<Rightarrow> py_error + (string \<times> registry)" where
  "get_indicator_value_code L r indicator_config =
     (case process_indicator L r indicator_config of
        Inl e \<Rightarrow> Inl e
      | Inr r1 \<Rightarrow>
          (case indicator_config of
             JDict c \<Rightarrow> (case value_code L c of Inl e \<Rightarrow> Inl e | Inr code \<Rightarrow> Inr (code, r1))
           | _ \<Rightarrow> Inl AttributeError))"

text \<open>\<^verbatim>\<open>_generate_indicator_initialization\<close>: the initialization line of a stored configuration,
  or \<open>None\<close>.\<close>

definition init_with_period ::
  "pylib \<Rightarrow> json \<Rightarrow> int \<Rightarrow> (string \<Rightarrow> string) \<Rightarrow> py_error + string option" where
  "init_with_period L args dflt line =
     (case period_or L args dflt of Inl e \<Rightarrow> Inl e | Inr p \<Rightarrow> Inr (Some (line p)))"

definition generate_indicator_initialization :: "pylib \<Rightarrow> indicator_config \<Rightarrow> py_error + string option" where
  "generate_indicator_initialization L config =
     (let name = cfg_name config; symbol = cfg_symbol config; args = cfg_args config;
          clean_symbol = dash_to_underscore (lower L symbol);
          clean_name = dash_to_underscore (lower L name)
      in if name \<in> set [''current-price'', ''current_price'']
         then Inr (Some (''self.'' @ clean_symbol @ ''_'' @ clean_name @ '' = self.identity(''
                         @ sq @ symbol @ sq @ '')''))
         else if name \<in> set [''month'', ''day-of-week'', ''day-of-month'', ''day-of-year''] then Inr None
         else if name = ''max-drawdown''
         then init_with_period L args 252
                (\<lambda>p. ''self.'' @ clean_symbol @ ''_max_drawdown_'' @ p @ '' = MaxDrawdownIndicator('' @ p @ '')'')
         else if name = ''drawdown''
         then init_with_period L args 252
                (\<lambda>p. ''self.'' @ clean_symbol @ ''_drawdown_'' @ p @ '' = DrawdownIndicator('' @ p @ '')'')
         else if name = ''moving-average-return''
         then init_with_period L args 20
                (\<lambda>p. ''self.'' @ clean_symbol @ ''_moving_avg_return_'' @ p
                      @ '' = MovingAvgReturnIndicator('' @ p @ '')'')
         else if name = ''moving-average-price''
         then init_with_period L args 20
                (\<lambda>p. ''self.'' @ clean_symbol @ ''_sma_'' @ p @ '' = self.sma('' @ sq @ symbol @ sq
                      @ '', '' @ p @ '')'')
         else if name = ''exponential-moving-average-price''
         then init_with_period L args 20
                (\<lambda>p. ''self.'' @ clean_symbol @ ''_ema_'' @ p @ '' = self.ema('' @ sq @ symbol @ sq
                      @ '', '' @ p @ '')'')
         else if name = ''rsi''
         then init_with_period L args 14
                (\<lambda>p. ''self.'' @ clean_symbol @ ''_rsi_'' @ p @ '' = self.rsi('' @ sq @ symbol @ sq
                      @ '', '' @ p @ '')'')
         else if name = ''standard-deviation-price'' \<or> name = ''volatility''
         then init_with_period L args 30
                (\<lambda>p. ''self.'' @ clean_symbol @ ''_std_'' @ p @ '' = self.std('' @ sq @ symbol @ sq
                      @ '', '' @ p @ '')'')
         else if name \<in> set [''cumulative-return'', ''returns'']
         then init_with_period L args 1
                (\<lambda>p. ''self.'' @ clean_symbol @ ''_roc_'' @ p @ '' = self.roc('' @ sq @ symbol @ sq
                      @ '', '' @ p @ '')'')
         else if name = ''standard-deviation-return''
         then init_with_period L args 30
                (\<lambda>p. ''self.'' @ clean_symbol @ ''_std_dev_return_'' @ p
                      @ '' = IndicatorExtensions.of(StandardDeviation('' @ p @ ''), self.roc(''
                      @ sq @ symbol @ sq @ '', 1))'')
         else Inr None)"

text \<open>\<^verbatim>\<open>generate_initialization_code\<close>: one line for each stored configuration that has one.\<close>

fun init_lines :: "pylib \<Rightarrow> (string \<times> indicator_config) list \<Rightarrow> py_error + string list" where
  "init_lines L [] = Inr []"
| "init_lines L ((indicator_key, config) # rest) =
     (case generate_indicator_initialization L config of
        Inl e \<Rightarrow> Inl e
      | Inr init_line \<Rightarrow>
          (case init_lines L rest of
             Inl e \<Rightarrow> Inl e
           | Inr lsym \<Rightarrow>
               Inr ((case init_line of
                       Some l \<Rightarrow> if l \<noteq> [] then [''        '' @ l] else []
                     | None \<Rightarrow> []) @ lsym)))"

definition generate_initialization_code :: "pylib \<Rightarrow> registry \<Rightarrow> py_error + string" where
  "generate_initialization_code L r =
     (if indicators_used r = [] then Inr ''        # No indicators needed''
      else (case init_lines L (indicators_used r) of
              Inl e \<Rightarrow> Inl e
            | Inr lsym \<Rightarrow>
                Inr (join [CHR 0x0A]
                       ([''        # Initialize indicators with automatic warm-up support'',
                         ''        self.settings.automatic_indicator_warm_up = True'',
                         ''''] @ lsym))))"

text \<open>Metric configurations (as dicts) on which the registry is run below.\<close>

definition sma_config :: "(string \<times> json) list" where
  "sma_config = [(''name'', JStr ''sma''), (''symbol'', JStr ''SPY''),
                 (''args'', JDict [(''period'', JInt 20)])]"

definition rsi_config :: "(string \<times> json) list" where
  "rsi_config = [(''name'', JStr ''rsi''), (''symbol'', JStr ''SPY''),
                 (''args'', JDict [(''period'', JInt 14)])]"

definition rsi_config_variant :: "(string \<times> json) list" where
  "rsi_config_variant = [(''name'', JStr ''RSI''), (''symbol'', JStr ''spy''),
                         (''args'', JDict [(''period'', JInt 14), (''ignored'', JBool True)])]"

definition max_drawdown_no_symbol :: "(string \<times> json) list" where
  "max_drawdown_no_symbol = [(''name'', JStr ''max-drawdown'')]"

text \<open>
  Predicates on a metric configuration (the dict \<open>c\<close>), for stating the properties of the
  registry.  \<open>indicator_key\<close> is the key that \<^verbatim>\<open>_process_indicator\<close> computes for it.
  \<open>registrable\<close> holds of the configurations for which \<^verbatim>\<open>_process_indicator\<close> reaches the store
  into \<^verbatim>\<open>indicators_used\<close>: an implemented name and a string as symbol.  \<open>config_ok\<close> is a
  condition under which \<^verbatim>\<open>_process_indicator\<close> raises nothing (a symbol that is a string or
  absent, \<^verbatim>\<open>args\<close> a dict or absent), \<open>value_code_ok\<close> one under which the rest of
  \<^verbatim>\<open>get_indicator_value_code\<close> raises nothing.
\<close>

definition indicator_key :: "pylib \<Rightarrow> (string \<times> json) list \<Rightarrow> py_error + string" where
  "indicator_key L c = create_indicator_key L (config_name L c) (config_symbol c) (config_args c)"

definition registrable :: "pylib \<Rightarrow> (string \<times> json) list \<Rightarrow> bool" where
  "registrable L c = (config_name L c \<in> set IMPLEMENTED_INDICATORS \<and> is_str (config_symbol c))"

definition config_ok :: "(string \<times> json) list \<Rightarrow> bool" where
  "config_ok c = ((config_symbol c = JNull \<or> is_str (config_symbol c)) \<and> is_dict (config_args c))"

definition value_code_ok :: "(string \<times> json) list \<Rightarrow> bool" where
  "value_code_ok c =
     (is_str (py_get_default c ''name'' (JStr []))
      \<and> is_str (py_get_default c ''symbol'' (JStr []))
      \<and> is_dict (py_get_default c ''args'' (JDict [])))"

section \<open>Properties of the custom indicator units\<close>

lemma update_all_100_120_90:
  "2 \<le> p \<Longrightarrow> update_all (init_indicator p) [100, 120, 90] =
     \<lparr>period = p, price_history = (if p = 2 then [120, 90] else [100, 120, 90]),
      is_ready = True\<rparr>"
  by (simp add: init_indicator_def update_def Let_def)

lemma max_drawdown_loop_nonpos:
  "\<forall>p\<in>set ps. p \<le> 0 \<Longrightarrow> peak \<le> 0 \<Longrightarrow> max_drawdown_loop peak 0 ps = 0"
  by (induction ps arbitrary: peak) (auto simp: Let_def)

lemma foldl_max_nonpos:
  "\<forall>p\<in>set ps. p \<le> (0::real) \<Longrightarrow> a \<le> 0 \<Longrightarrow> foldl max a ps \<le> 0"
  by (induction ps arbitrary: a) auto

lemma length_history_update:
  "length (price_history (update s p)) \<le> Suc (length (price_history s))"
  by (simp add: update_def Let_def)

lemma length_history_update_all:
  "length (price_history (update_all s ps)) \<le> length (price_history s) + length ps"
proof (induction ps arbitrary: s)
  case Nil
  then show ?case by simp
next
  case (Cons a ps)
  have "length (price_history (update_all (update s a) ps))
          \<le> length (price_history (update s a)) + length ps"
    by (rule Cons.IH)
  also have "\<dots> \<le> Suc (length (price_history s)) + length ps"
    using length_history_update[of s a] by simp
  finally show ?case by simp
qed

lemma values_after_100_120_90:
  assumes p: "2 \<le> p"
  shows "max_drawdown_value (update_all (init_indicator p) [100, 120, 90]) = 0.25"
    and "drawdown_value (update_all (init_indicator p) [100, 120, 90]) = 0.25"
proof -
  let ?s = "update_all (init_indicator p) [100, 120, 90]"
  have s: "?s = \<lparr>period = p, price_history = (if p = 2 then [120, 90] else [100, 120, 90]),
                  is_ready = True\<rparr>"
    using p by (rule update_all_100_120_90)
  show "max_drawdown_value ?s = 0.25"
    unfolding s by (simp add: max_drawdown_value_def Let_def)
  show "drawdown_value ?s = 0.25"
    unfolding s by (simp add: drawdown_value_def py_max_def Let_def)
qed

lemma values_few_prices:
  assumes "length ps < 2"
  shows "max_drawdown_value (update_all (init_indicator p) ps) = 0"
    and "drawdown_value (update_all (init_indicator p) ps) = 0"
proof -
  have "length (price_history (update_all (init_indicator p) ps)) < 2"
    using assms length_history_update_all[of "init_indicator p" ps]
    by (simp add: init_indicator_def)
  then show "max_drawdown_value (update_all (init_indicator p) ps) = 0"
    and "drawdown_value (update_all (init_indicator p) ps) = 0"
    by (simp_all add: max_drawdown_value_def drawdown_value_def)
qed

lemma values_nonpositive_peak:
  assumes a: "\<forall>x\<in>set (price_history s). x \<le> 0"
  shows "max_drawdown_value s = 0" and "drawdown_value s = 0"
proof -
  have "max_drawdown_value s = 0 \<and> drawdown_value s = 0"
  proof (cases "price_history s")
    case Nil
    then show ?thesis by (simp add: max_drawdown_value_def drawdown_value_def)
  next
    case (Cons h t)
    with a have "h \<le> 0" "\<forall>x\<in>set t. x \<le> 0" by auto
    then have "max_drawdown_loop h 0 t = 0" "foldl max h t \<le> 0"
      by (simp_all add: max_drawdown_loop_nonpos foldl_max_nonpos)
    then show ?thesis
      using Cons by (simp add: max_drawdown_value_def drawdown_value_def py_max_def Let_def)
  qed
  then show "max_drawdown_value s = 0" and "drawdown_value s = 0" by simp_all
qed

text \<open>
  Claim C7.  After the three updates 100, 120, 90 (with a window of at least two prices, which
  includes the default period 252) \<^verbatim>\<open>MaxDrawdownIndicator.value\<close> is (120 - 90) / 120 = 0.25 and
  \<^verbatim>\<open>DrawdownIndicator.value\<close> is 0.25 as well; an indicator that has observed fewer than two
  prices since construction returns 0.0; and an indicator whose window holds no positive price
  (so that every peak it can use is not positive) returns 0.0.
\<close>

theorem custom_indicator_numeric_contract:
  "(2 \<le> p \<longrightarrow>
      max_drawdown_value (update_all (init_indicator p) [100, 120, 90]) = (120 - 90) / 120
    \<and> max_drawdown_value (update_all (init_indicator p) [100, 120, 90]) = 0.25
    \<and> drawdown_value (update_all (init_indicator p) [100, 120, 90]) = 0.25)
   \<and> (length ps < 2 \<longrightarrow>
      max_drawdown_value (update_all (init_indicator q) ps) = 0
    \<and> drawdown_value (update_all (init_indicator q) ps) = 0)
   \<and> ((\<forall>x\<in>set (price_history s). x \<le> 0) \<longrightarrow>
      max_drawdown_value s = 0 \<and> drawdown_value s = 0)"
  using values_after_100_120_90[of p] values_few_prices[of ps q] values_nonpositive_peak[of s]
  by simp

theorem custom_indicator_numeric_contract_witness:
  "(2::int) \<le> 252
   \<and> max_drawdown_value (update_all (init_indicator 252) [100, 120, 90]) = 0.25
   \<and> drawdown_value (update_all (init_indicator 252) [100, 120, 90]) = 0.25
   \<and> length [100::real] < 2
   \<and> max_drawdown_value (update_all (init_indicator 252) [100]) = 0
   \<and> drawdown_value (update_all (init_indicator 252) [100]) = 0
   \<and> list_all (\<lambda>x. x \<le> 0)
        (price_history \<lparr>period = 252, price_history = [-5, -10], is_ready = True\<rparr>)
   \<and> max_drawdown_value \<lparr>period = 252, price_history = [-5, -10], is_ready = True\<rparr> = 0
   \<and> drawdown_value \<lparr>period = 252, price_history = [-5, -10], is_ready = True\<rparr> = 0"
  using custom_indicator_numeric_contract
    [of 252 "[100]" 252 "\<lparr>period = 252, price_history = [-5, -10], is_ready = True\<rparr>"]
  by simp

section \<open>Properties of the order validator\<close>

lemma seq_errors_Inr_subset:
  "seq_errors xs = Inr es \<Longrightarrow> Inr es' \<in> set xs \<Longrightarrow> set es' \<subseteq> set es"
proof (induction xs arbitrary: es rule: seq_errors.induct)
  case 1
  then show ?case by simp
next
  case (2 e rest)
  then show ?case by simp
next
  case (3 es0 rest)
  then show ?case by (auto split: sum.splits)
qed

lemma seq_errors_Inr_elem:
  "seq_errors xs = Inr es \<Longrightarrow> x \<in> set xs \<Longrightarrow> \<exists>es'. x = Inr es'"
proof (induction xs arbitrary: es rule: seq_errors.induct)
  case 1
  then show ?case by simp
next
  case (2 e rest)
  then show ?case by simp
next
  case (3 es0 rest)
  then show ?case by (auto split: sum.splits)
qed

lemma finish_Inr:
  "finish r = Inr (ok, errors) \<Longrightarrow> r = Inr errors \<and> ok = (errors = [])"
  by (auto simp: finish_def split: sum.splits)

lemma sublist_prepend:
  "sublist xs ys \<Longrightarrow> sublist xs (ps @ ys)"
  by (simp add: sublist_append)

lemma sublist_join:
  "x \<in> set xs \<Longrightarrow> sublist x (join sep xs)"
proof (induction sep xs rule: join.induct)
  case (1 sep)
  then show ?case by simp
next
  case (2 sep y)
  then show ?case by simp
next
  case (3 sep y z zs)
  show ?case
  proof (cases "x = y")
    case True
    then show ?thesis by (simp add: sublist_append_rightI)
  next
    case False
    with 3 have "sublist x (join sep (z # zs))" by simp
    then have "sublist x ((y @ sep) @ join sep (z # zs))"
      by (rule sublist_prepend)
    then show ?thesis by simp
  qed
qed

lemma order_weights_loop_returns:
  "list_all (\<lambda>kv. weight_value_ok L (snd kv)) items \<Longrightarrow>
     \<exists>es. order_weights_loop L nid symbols w items = Inr es"
proof (induction items arbitrary: w)
  case Nil
  then show ?case by simp
next
  case (Cons kv items)
  obtain k v where kv: "kv = (k, v)" by (cases kv)
  from Cons.prems have ok: "weight_value_ok L v"
    and rest: "list_all (\<lambda>kv. weight_value_ok L (snd kv)) items"
    by (simp_all add: kv)
  show ?case
  proof (cases "is_list v \<or> is_dict v \<or> is_bool v")
    case True
    obtain es where "order_weights_loop L nid symbols w items = Inr es"
      using Cons.IH[OF rest] by blast
    with True show ?thesis by (simp add: kv Let_def)
  next
    case False
    with ok obtain f where f: "float_try L v = Some f"
      by (auto simp: weight_value_ok_def)
    obtain es where "order_weights_loop L nid symbols (Some f) items = Inr es"
      using Cons.IH[OF rest] by blast
    with False f show ?thesis by (simp add: kv Let_def)
  qed
qed

lemma order_head_returns:
  assumes "order_fields_ok L d"
  shows "\<exists>es. order_size_type_errors nid d = Inr es" and "\<exists>es. order_size_errors d = Inr es"
proof -
  from assms have h: "hashable (py_get_default d ''size_type'' (JStr ''percent_equity''))"
    and s: "(case py_get d ''size'' of JInt n \<Rightarrow> \<not> int_overflows n | _ \<Rightarrow> True)"
    by (simp_all add: order_fields_ok_def)
  from h show "\<exists>es. order_size_type_errors nid d = Inr es"
    by (simp add: order_size_type_errors_def Let_def)
  from s show "\<exists>es. order_size_errors d = Inr es"
    by (cases "py_get d ''size''") (auto simp: order_size_errors_def)
qed

text \<open>
  Where the validator returns.  Let \<open>d\<close> be an order node whose referenced symbols (the
  uppercased keys of \<^verbatim>\<open>weights\<close>, \<^verbatim>\<open>symbol_filter\<close> and the uppercased \<^verbatim>\<open>universe\<close>) are \<open>symbols\<close>,
  and let \<open>symb\<close> be one of them that is no uppercased key of \<^verbatim>\<open>weights\<close>.  Then, whatever the
  allocation mode, \<^verbatim>\<open>validate_order_node\<close> never returns valid; whenever it returns, the result
  is invalid and carries the message "Missing weight(s) for: ..." in which \<open>symb\<close> occurs; and it
  does return when the other fields raise no exception.
\<close>

lemma order_missing_weight_reported:
  assumes ty: "py_get d ''type'' = JStr ''order''"
    and syms: "order_symbols L d = Inr symbols"
    and sy: "symb \<in> set symbols"
    and nokey: "symb \<notin> set (map (\<lambda>kv. upper L (fst kv)) (weight_items d))"
  shows "(validate_order_node L (JDict d) allowed_tickers = Inr (ok, errors) \<longrightarrow>
            \<not> ok
          \<and> for_order (py_str L (py_get d ''id'')) @ ''Missing weight(s) for: ''
              @ join '', '' (sort (missing_weights L symbols d)) \<in> set errors)
       \<and> sublist symb (for_order (py_str L (py_get d ''id'')) @ ''Missing weight(s) for: ''
              @ join '', '' (sort (missing_weights L symbols d)))
       \<and> (order_fields_ok L d \<longrightarrow>
            (\<exists>errs. validate_order_node L (JDict d) allowed_tickers = Inr (False, errs)
               \<and> for_order (py_str L (py_get d ''id'')) @ ''Missing weight(s) for: ''
                    @ join '', '' (sort (missing_weights L symbols d)) \<in> set errs))"
proof -
  let ?nid = "py_str L (py_get d ''id'')"
  let ?msg = "for_order ?nid @ ''Missing weight(s) for: '' @ join '', '' (sort (missing_weights L symbols d))"
  define loop where "loop = order_weights_loop L ?nid symbols None (weight_items d)"
  define tail where "tail = seq_errors
                 [Inr (order_universe_type_errors d),
                  Inr (order_no_symbols_errors symbols),
                  Inr (order_allowed_errors L ?nid symbols allowed_tickers),
                  Inr (order_missing_errors L ?nid symbols d),
                  loop]"
  define st where "st = order_size_type_errors ?nid d"
  define sz where "sz = order_size_errors d"
  define blocks where "blocks =
                [Inr (order_id_errors d),
                 Inr (order_side_errors ?nid d),
                 st,
                 Inr (order_allocation_errors ?nid d),
                 sz,
                 Inr (order_weights_type_errors d),
                 tail]"
  have v: "validate_order_node L (JDict d) allowed_tickers = finish (seq_errors blocks)"
    using ty syms
    by (simp add: validate_order_node_def Let_def blocks_def tail_def loop_def st_def sz_def)
  from sy nokey have mem: "symb \<in> set (missing_weights L symbols d)"
    by (simp add: missing_weights_def)
  then have miss: "order_missing_errors L ?nid symbols d = [?msg]"
    by (auto simp: order_missing_errors_def)
  from mem have "symb \<in> set (sort (missing_weights L symbols d))" by simp
  then have "sublist symb (join '', '' (sort (missing_weights L symbols d)))"
    by (rule sublist_join)
  then have "sublist symb ((for_order ?nid @ ''Missing weight(s) for: '')
                            @ join '', '' (sort (missing_weights L symbols d)))"
    by (rule sublist_prepend)
  then have names: "sublist symb ?msg" by simp
  have in_all: "?msg \<in> set es" if r: "seq_errors blocks = Inr es" for es
  proof -
    have "tail \<in> set blocks" by (simp add: blocks_def)
    with r obtain ts where ts: "tail = Inr ts"
      using seq_errors_Inr_elem by blast
    then have ts': "seq_errors
                 [Inr (order_universe_type_errors d),
                  Inr (order_no_symbols_errors symbols),
                  Inr (order_allowed_errors L ?nid symbols allowed_tickers),
                  Inr [?msg],
                  loop] = Inr ts"
      by (simp only: tail_def miss)
    have "set [?msg] \<subseteq> set ts"
      by (rule seq_errors_Inr_subset[OF ts']) simp
    moreover have "Inr ts \<in> set blocks" by (simp add: blocks_def ts)
    with r have "set ts \<subseteq> set es" by (rule seq_errors_Inr_subset)
    ultimately show ?thesis by auto
  qed
  have part1: "validate_order_node L (JDict d) allowed_tickers = Inr (ok, errors) \<longrightarrow>
                 \<not> ok \<and> ?msg \<in> set errors"
  proof
    assume "validate_order_node L (JDict d) allowed_tickers = Inr (ok, errors)"
    with v have "finish (seq_errors blocks) = Inr (ok, errors)" by simp
    then have r: "seq_errors blocks = Inr errors" and okdef: "ok = (errors = [])"
      using finish_Inr by blast+
    from in_all[OF r] okdef show "\<not> ok \<and> ?msg \<in> set errors" by auto
  qed
  have part3: "order_fields_ok L d \<longrightarrow>
                 (\<exists>errs. validate_order_node L (JDict d) allowed_tickers = Inr (False, errs)
                    \<and> ?msg \<in> set errs)"
  proof
    assume okf: "order_fields_ok L d"
    obtain e1 where e1: "st = Inr e1"
      unfolding st_def using order_head_returns(1)[OF okf] by blast
    obtain e2 where e2: "sz = Inr e2"
      unfolding sz_def using order_head_returns(2)[OF okf] by blast
    from okf have "list_all (\<lambda>kv. weight_value_ok L (snd kv)) (weight_items d)"
      by (simp add: order_fields_ok_def)
    then obtain e3 where e3: "loop = Inr e3"
      unfolding loop_def using order_weights_loop_returns by blast
    obtain es where es: "seq_errors blocks = Inr es"
      by (simp add: blocks_def tail_def e1 e2 e3)
    from in_all[OF es] have m: "?msg \<in> set es" .
    then have "es \<noteq> []" by auto
    with es v have "validate_order_node L (JDict d) allowed_tickers = Inr (False, es)"
      by (simp add: finish_def)
    with m show "\<exists>errs. validate_order_node L (JDict d) allowed_tickers = Inr (False, errs)
                    \<and> ?msg \<in> set errs" by blast
  qed
  from part1 names part3 show ?thesis by blast
qed

text \<open>
  Claim C4 fails on the code.  In the order node with \<^verbatim>\<open>universe\<close> SPY and TQQQ and the weight
  \<^verbatim>\<open>null\<close> for SPY, the referenced symbol TQQQ has no weight entry, and the validator does not
  return invalid: the handler of \<^verbatim>\<open>float(v)\<close> falls through to \<^verbatim>\<open>if w < 0\<close> with \<^verbatim>\<open>w\<close> unassigned
  and \<^verbatim>\<open>UnboundLocalError\<close> escapes.  The same happens with a symbol that comes from
  \<^verbatim>\<open>symbol_filter\<close>, and a \<^verbatim>\<open>universe\<close> element that is no string raises \<^verbatim>\<open>AttributeError\<close>.  With
  numeric weights the same nodes are reported as the claim says.
\<close>

theorem order_missing_weight_raises:
  "order_symbols plain_lib order_missing_null = Inr [''SPY'', ''TQQQ'']
   \<and> missing_weights plain_lib [''SPY'', ''TQQQ''] order_missing_null = [''TQQQ'']
   \<and> validate_order_node plain_lib (JDict order_missing_null) [''SPY'', ''TQQQ'']
       = Inl UnboundLocalError
   \<and> order_symbols plain_lib order_filter_missing_null = Inr [''SPY'', ''TQQQ'']
   \<and> missing_weights plain_lib [''SPY'', ''TQQQ''] order_filter_missing_null = [''TQQQ'']
   \<and> validate_order_node plain_lib (JDict order_filter_missing_null) [''SPY'', ''TQQQ'']
       = Inl UnboundLocalError
   \<and> validate_order_node plain_lib (JDict order_universe_number) [''SPY'', ''TQQQ'']
       = Inl AttributeError
   \<and> validate_order_node plain_lib (JDict order_example) [''SPY'', ''TQQQ'']
       = Inr (False, [''For order 'None', Missing weight(s) for: TQQQ''])
   \<and> validate_order_node plain_lib (JDict order_filter_example) [''SPY'', ''TQQQ'']
       = Inr (False, [''For order 'None', Missing weight(s) for: TQQQ''])"
  by code_simp

section \<open>Properties of the condition validator\<close>

lemma parse_operand_kind:
  assumes "float_ok x"
  shows "\<exists>k es. parse_operand L opts nid x side = Inr (k, es)
           \<and> is_metric_kind k = metric_operand L x
           \<and> is_literal_kind k = is_number x"
proof (cases x)
  case (JInt n)
  with assms show ?thesis
    by (simp add: parse_operand_def float_ok_def metric_operand_def)
next
  case (JDict m)
  show ?thesis
  proof (cases "has_key m ''name''")
    case True
    then show ?thesis
      by (simp add: JDict parse_operand_def metric_operand_def validate_metric_def Let_def)
  next
    case False
    then show ?thesis
      by (simp add: JDict parse_operand_def metric_operand_def)
  qed
qed (simp_all add: parse_operand_def metric_operand_def)

lemma parse_side_kind:
  assumes "side_float_ok d side"
  shows "\<exists>k es. parse_side L opts nid d side = Inr (k, es)
           \<and> is_metric_kind k = side_is_metric L d side
           \<and> is_literal_kind k = side_is_number d side"
proof (cases "map_of d side")
  case None
  then show ?thesis
    by (simp add: parse_side_def side_is_metric_def side_is_number_def)
next
  case (Some x)
  with assms have "float_ok x" by (simp add: side_float_ok_def)
  from parse_operand_kind[OF this, of L opts nid side] Some show ?thesis
    by (simp add: parse_side_def side_is_metric_def side_is_number_def)
qed

text \<open>The shape of the result when no operand raises: all the messages, in program order.\<close>

lemma validate_condition_node_result:
  assumes "side_float_ok d ''lhs''" and "side_float_ok d ''rhs''"
  shows "\<exists>l le r re.
           parse_side L opts (py_str L (py_get d ''id'')) d ''lhs'' = Inr (l, le)
         \<and> parse_side L opts (py_str L (py_get d ''id'')) d ''rhs'' = Inr (r, re)
         \<and> is_metric_kind l = side_is_metric L d ''lhs''
         \<and> is_metric_kind r = side_is_metric L d ''rhs''
         \<and> is_literal_kind l = side_is_number d ''lhs''
         \<and> is_literal_kind r = side_is_number d ''rhs''
         \<and> validate_condition_node L opts (JDict d) =
             finish (Inr (cond_type_errors d
                          @ cond_operator_errors (py_str L (py_get d ''id'')) d
                          @ le @ re
                          @ cond_constraint_errors (py_str L (py_get d ''id'')) d l r
                          @ cond_id_desc_errors (py_str L (py_get d ''id'')) d
                          @ else_branch_errors L opts (cond_nid_after d) d))"
proof -
  let ?nid = "py_str L (py_get d ''id'')"
  obtain l le where l: "parse_side L opts ?nid d ''lhs'' = Inr (l, le)"
    "is_metric_kind l = side_is_metric L d ''lhs''" "is_literal_kind l = side_is_number d ''lhs''"
    using parse_side_kind[OF assms(1)] by blast
  obtain r re where r: "parse_side L opts ?nid d ''rhs'' = Inr (r, re)"
    "is_metric_kind r = side_is_metric L d ''rhs''" "is_literal_kind r = side_is_number d ''rhs''"
    using parse_side_kind[OF assms(2)] by blast
  have "validate_condition_node L opts (JDict d) =
             finish (Inr (cond_type_errors d
                          @ cond_operator_errors ?nid d
                          @ le @ re
                          @ cond_constraint_errors ?nid d l r
                          @ cond_id_desc_errors ?nid d
                          @ else_branch_errors L opts (cond_nid_after d) d))"
    by (simp add: validate_condition_node_def Let_def l(1) r(1))
  with l r show ?thesis by blast
qed

lemma finish_with_error:
  "m \<in> set es \<Longrightarrow> \<exists>errs. finish (Inr es) = Inr (False, errs) \<and> m \<in> set errs"
  by (auto simp: finish_def)

lemma operator_given:
  assumes "py_get d ''operator'' = JStr op"
  shows "flag_check_for_operator d" and "cond_op d = op"
proof -
  from assms have "map_of d ''operator'' \<noteq> None"
    by (auto simp: py_get_def split: option.splits)
  then show "flag_check_for_operator d"
    by (simp add: flag_check_for_operator_def has_key_def)
  from assms show "cond_op d = op" by (simp add: cond_op_def)
qed

text \<open>
  Where the validator returns.  For a condition node with the string operator \<open>op\<close> and no
  integer operand beyond the doubles: if \<open>op\<close> is \<^verbatim>\<open>crosses_above\<close> or \<^verbatim>\<open>crosses_below\<close> and one of
  the operands is absent or no metric, the validator returns invalid with the message that both
  operands must be metrics; if \<open>op\<close> is one of \<^verbatim>\<open>gt\<close>, \<^verbatim>\<open>gte\<close>, \<^verbatim>\<open>lt\<close>, \<^verbatim>\<open>lte\<close>, \<^verbatim>\<open>eq\<close>, \<^verbatim>\<open>neq\<close> and
  both operands are numeric literals, it returns invalid with the message that at least one
  operand must be a metric.
\<close>

lemma condition_operand_rules_reported:
  assumes op: "py_get d ''operator'' = JStr op"
    and lhs: "side_float_ok d ''lhs''"
    and rhs: "side_float_ok d ''rhs''"
  shows "(op \<in> {''crosses_above'', ''crosses_below''}
            \<and> (\<not> side_is_metric L d ''lhs'' \<or> \<not> side_is_metric L d ''rhs'')
          \<longrightarrow> (\<exists>errs. validate_condition_node L opts (JDict d) = Inr (False, errs)
                 \<and> for_condition (py_str L (py_get d ''id'')) @ '','' @ op
                      @ '' requires both lhs and rhs to be metrics (no literals)'' \<in> set errs))
       \<and> (op \<in> {''gt'', ''gte'', ''lt'', ''lte'', ''eq'', ''neq''}
            \<and> side_is_number d ''lhs'' \<and> side_is_number d ''rhs''
          \<longrightarrow> (\<exists>errs. validate_condition_node L opts (JDict d) = Inr (False, errs)
                 \<and> for_condition (py_str L (py_get d ''id'')) @ '', '' @ op
                      @ '' requires at least one operand to be a metric'' \<in> set errs))"
proof -
  let ?nid = "py_str L (py_get d ''id'')"
  obtain l le r re where
    kinds: "is_metric_kind l = side_is_metric L d ''lhs''" "is_metric_kind r = side_is_metric L d ''rhs''"
      "is_literal_kind l = side_is_number d ''lhs''" "is_literal_kind r = side_is_number d ''rhs''"
    and v: "validate_condition_node L opts (JDict d) =
             finish (Inr (cond_type_errors d @ cond_operator_errors ?nid d @ le @ re
                          @ cond_constraint_errors ?nid d l r
                          @ cond_id_desc_errors ?nid d
                          @ else_branch_errors L opts (cond_nid_after d) d))"
    using validate_condition_node_result[OF lhs rhs, of L opts] by blast
  note given = operator_given[OF op]
  have crosses: "\<exists>errs. validate_condition_node L opts (JDict d) = Inr (False, errs)
                 \<and> for_condition ?nid @ '','' @ op
                      @ '' requires both lhs and rhs to be metrics (no literals)'' \<in> set errs"
    if "op \<in> {''crosses_above'', ''crosses_below''}"
      and "\<not> side_is_metric L d ''lhs'' \<or> \<not> side_is_metric L d ''rhs''"
  proof -
    from that kinds given
    have "for_condition ?nid @ '','' @ op
            @ '' requires both lhs and rhs to be metrics (no literals)''
          \<in> set (cond_constraint_errors ?nid d l r)"
      by (auto simp: cond_constraint_errors_def Let_def)
    then show ?thesis
      unfolding v by (intro finish_with_error) simp
  qed
  have compare: "\<exists>errs. validate_condition_node L opts (JDict d) = Inr (False, errs)
                 \<and> for_condition ?nid @ '', '' @ op
                      @ '' requires at least one operand to be a metric'' \<in> set errs"
    if "op \<in> {''gt'', ''gte'', ''lt'', ''lte'', ''eq'', ''neq''}"
      and "side_is_number d ''lhs''" and "side_is_number d ''rhs''"
  proof -
    from that kinds given
    have "for_condition ?nid @ '', '' @ op
            @ '' requires at least one operand to be a metric''
          \<in> set (cond_constraint_errors ?nid d l r)"
      by (auto simp: cond_constraint_errors_def Let_def)
    then show ?thesis
      unfolding v by (intro finish_with_error) simp
  qed
  show ?thesis
  proof (intro conjI impI)
    assume a: "op \<in> {''crosses_above'', ''crosses_below''}
                 \<and> (\<not> side_is_metric L d ''lhs'' \<or> \<not> side_is_metric L d ''rhs'')"
    from a have p: "op \<in> {''crosses_above'', ''crosses_below''}" by (rule conjunct1)
    from a have q: "\<not> side_is_metric L d ''lhs'' \<or> \<not> side_is_metric L d ''rhs''" by (rule conjunct2)
    from crosses[OF p q]
    show "\<exists>errs. validate_condition_node L opts (JDict d) = Inr (False, errs)
                 \<and> for_condition ?nid @ '','' @ op
                      @ '' requires both lhs and rhs to be metrics (no literals)'' \<in> set errs" .
  next
    assume a: "op \<in> {''gt'', ''gte'', ''lt'', ''lte'', ''eq'', ''neq''}
                 \<and> side_is_number d ''lhs'' \<and> side_is_number d ''rhs''"
    from a have p: "op \<in> {''gt'', ''gte'', ''lt'', ''lte'', ''eq'', ''neq''}" by (rule conjunct1)
    from a have q: "side_is_number d ''lhs''" by (rule conjunct2[THEN conjunct1])
    from a have r: "side_is_number d ''rhs''" by (rule conjunct2[THEN conjunct2])
    from compare[OF p q r]
    show "\<exists>errs. validate_condition_node L opts (JDict d) = Inr (False, errs)
                 \<and> for_condition ?nid @ '', '' @ op
                      @ '' requires at least one operand to be a metric'' \<in> set errs" .
  qed
qed

text \<open>
  Claim C5 fails on the code.  With the operator \<^verbatim>\<open>gt\<close> and two integer literals of which one is
  beyond the doubles, and with \<^verbatim>\<open>crosses_above\<close> and such a literal as \<^verbatim>\<open>rhs\<close>, the validator
  reports no error: \<^verbatim>\<open>float(x)\<close> in \<^verbatim>\<open>_parse_operand\<close> raises \<^verbatim>\<open>OverflowError\<close>.  With literals
  that convert, the same nodes are reported as the claim says.
\<close>

theorem condition_operand_rules_raise:
  "validate_condition_node plain_lib default_cond_opts (JDict both_literals_huge)
     = Inl OverflowError
   \<and> validate_condition_node plain_lib default_cond_opts (JDict crosses_literal_huge)
     = Inl OverflowError
   \<and> validate_condition_node plain_lib default_cond_opts (JDict both_literals_example)
     = Inr (False, [''For condition 'None', gt requires at least one operand to be a metric''])
   \<and> validate_condition_node plain_lib default_cond_opts (JDict crosses_literal_example)
     = Inr (False, [''For condition 'None',crosses_above requires both lhs and rhs to be metrics (no literals)''])"
  by code_simp






section \<open>Properties of the else-branch checks\<close>

text \<open>Every message of the condition validator other than "Else branch must be the last direct
  child of the condition" ends in a character other than \<open>n\<close>.\<close>

lemma validate_metric_messages_n:
  "\<forall>e\<in>set (snd (validate_metric L opts nid m side)). last e \<noteq> CHR ''n''"
  by (auto simp add: validate_metric_def Let_def ball_Un split: option.splits)

lemma parse_operand_messages_n:
  assumes "parse_operand L opts nid x side = Inr (k, es)"
  shows "\<forall>e\<in>set es. last e \<noteq> CHR ''n''"
proof (cases "is_metric_object x")
  case True
  then obtain m where m: "x = JDict m" by (cases x) simp_all
  from assms True m have "es = snd (validate_metric L opts nid m side)"
    by (auto simp: parse_operand_def split: prod.splits option.splits)
  then show ?thesis using validate_metric_messages_n by simp
next
  case False
  with assms show ?thesis
    by (auto simp: parse_operand_def split: if_splits sum.splits)
qed

lemma parse_side_messages_n:
  assumes "parse_side L opts nid d side = Inr (k, es)"
  shows "\<forall>e\<in>set es. last e \<noteq> CHR ''n''"
proof (cases "map_of d side")
  case None
  with assms show ?thesis by (simp add: parse_side_def)
next
  case (Some x)
  with assms have "parse_operand L opts nid x side = Inr (k, es)" by (simp add: parse_side_def)
  then show ?thesis by (rule parse_operand_messages_n)
qed

lemma cond_type_messages_n: "\<forall>e\<in>set (cond_type_errors d). last e \<noteq> CHR ''n''"
  by (simp add: cond_type_errors_def sq_def)

lemma cond_operator_messages_n: "\<forall>e\<in>set (cond_operator_errors nid d). last e \<noteq> CHR ''n''"
  by (simp add: cond_operator_errors_def sorted_condition_ops_repr_def Let_def ball_Un)

lemma cond_constraint_messages_n: "\<forall>e\<in>set (cond_constraint_errors nid d l r). last e \<noteq> CHR ''n''"
  by (simp add: cond_constraint_errors_def Let_def ball_Un)

lemma cond_id_desc_messages_n: "\<forall>e\<in>set (cond_id_desc_errors nid d). last e \<noteq> CHR ''n''"
  by (simp add: cond_id_desc_errors_def Let_def ball_Un)

lemma else_node_messages_n:
  assumes "\<not> (else_must_be_last opts \<and> int idx \<noteq> int (length children) - 1)"
  shows "\<forall>e\<in>set (else_node_errors opts nid children idx). last e \<noteq> CHR ''n''"
  using assms by (simp add: else_node_errors_def Let_def ball_Un)

lemma else_branch_messages_n:
  assumes "else_idxs L (lower L (strip L (else_label opts))) (cond_children d) \<noteq> [] \<longrightarrow>
           \<not> (else_must_be_last opts
              \<and> int (hd (else_idxs L (lower L (strip L (else_label opts))) (cond_children d)))
                  \<noteq> int (length (cond_children d)) - 1)"
  shows "\<forall>e\<in>set (else_branch_errors L opts nid d). last e \<noteq> CHR ''n''"
proof (cases "else_idxs L (lower L (strip L (else_label opts))) (cond_children d) = []")
  case True
  then show ?thesis
    by (auto simp add: else_branch_errors_def Let_def ball_Un)
next
  case False
  with assms have "\<forall>e\<in>set (else_node_errors opts nid (cond_children d)
                     (hd (else_idxs L (lower L (strip L (else_label opts))) (cond_children d)))).
                   last e \<noteq> CHR ''n''"
    by (intro else_node_messages_n) simp
  with False show ?thesis
    by (auto simp add: else_branch_errors_def Let_def ball_Un)
qed

text \<open>The indices of the else-groups are increasing, so a first index that is the last position
  is the only one.\<close>

lemma else_idxs_last_only:
  assumes ne: "else_idxs L lab cs \<noteq> []" and fin: "Suc (hd (else_idxs L lab cs)) = length cs"
  shows "else_idxs L lab cs = [length cs - 1]"
proof -
  from fin obtain n where n: "length cs = Suc n" by (cases "length cs") simp_all
  let ?P = "\<lambda>i. is_else_group L lab (cs ! i)"
  have split: "else_idxs L lab cs = filter ?P [0..<n] @ (if ?P n then [n] else [])"
    by (simp add: else_idxs_def n)
  have "filter ?P [0..<n] = []"
  proof (rule ccontr)
    assume a: "filter ?P [0..<n] \<noteq> []"
    then have "hd (else_idxs L lab cs) = hd (filter ?P [0..<n])"
      by (simp add: split)
    moreover from a have "hd (filter ?P [0..<n]) \<in> set (filter ?P [0..<n])"
      by (rule hd_in_set)
    then have "hd (filter ?P [0..<n]) < n" by simp
    ultimately show False using fin n by simp
  qed
  with split ne have "else_idxs L lab cs = [n]" by (simp split: if_splits)
  with n show ?thesis by simp
qed

lemma cond_children_nonempty_is_list:
  assumes "cond_children d \<noteq> []"
  shows "is_list (let c = py_get_default d ''children'' (JList []) in if c = JNull then JList [] else c)"
  using assms by (cases "py_get_default d ''children'' (JList [])") (simp_all add: cond_children_def)

lemma else_node_errors_none:
  assumes fin: "Suc idx = length children" and hc: "has_children (children ! idx)"
    and two: "2 \<le> length children"
  shows "else_node_errors opts nid children idx = []"
proof -
  from hc obtain cd cs where cd: "children ! idx = JDict cd"
    and cs: "py_get cd ''children'' = JList cs" "cs \<noteq> []"
    by (auto simp: has_children_def split: json.splits)
  from cs have "py_get_default cd ''children'' (JList []) = JList cs"
    by (auto simp: py_get_def py_get_default_def split: option.splits)
  with cd cs fin two show ?thesis
    by (simp add: else_node_errors_def Let_def)
qed

text \<open>
  Where the validator returns.  Let \<open>idxs\<close> be the positions, among the direct children of a
  condition node, of the groups whose stripped and lowered description equals the stripped and
  lowered else-label, with the else-branch validation on and no integer operand beyond the
  doubles.  More than one such group makes the validator return invalid with the message that
  only one is allowed.  Under \<^verbatim>\<open>else_must_be_last\<close>, an else-group that is not the final child makes
  it return invalid with the message that the else branch must be the last direct child.  An
  else-group that is the final child is the only one, the result never carries that message, and
  the else-branch checks report nothing at all when the else-group has children and is preceded by
  another child.
\<close>

lemma else_branch_placement_reported:
  assumes lhs: "side_float_ok d ''lhs''" and rhs: "side_float_ok d ''rhs''"
    and ve: "validate_else opts"
    and idxs: "idxs = else_idxs L (lower L (strip L (else_label opts))) (cond_children d)"
  shows "(1 < length idxs \<longrightarrow>
            (\<exists>errs. validate_condition_node L opts (JDict d) = Inr (False, errs)
               \<and> for_condition (cond_nid_after d)
                    @ '',condition has multiple Else branch groups; only one is allowed'' \<in> set errs))
       \<and> (else_must_be_last opts \<and> idxs \<noteq> [] \<and> Suc (hd idxs) \<noteq> length (cond_children d) \<longrightarrow>
            (\<exists>errs. validate_condition_node L opts (JDict d) = Inr (False, errs)
               \<and> for_condition (cond_nid_after d)
                    @ '',Else branch must be the last direct child of the condition'' \<in> set errs))
       \<and> (idxs \<noteq> [] \<and> Suc (hd idxs) = length (cond_children d) \<longrightarrow>
            length idxs = 1
            \<and> (\<exists>ok errs. validate_condition_node L opts (JDict d) = Inr (ok, errs)
                  \<and> for_condition (cond_nid_after d)
                       @ '',Else branch must be the last direct child of the condition'' \<notin> set errs)
            \<and> (has_children (last (cond_children d)) \<and> 2 \<le> length (cond_children d) \<longrightarrow>
                 else_branch_errors L opts (cond_nid_after d) d = []))"
proof -
  let ?nid = "py_str L (py_get d ''id'')"
  let ?nid2 = "cond_nid_after d"
  let ?cs = "cond_children d"
  define multiple where "multiple = for_condition ?nid2
                    @ '',condition has multiple Else branch groups; only one is allowed''"
  define lastmsg where "lastmsg = for_condition ?nid2
                    @ '',Else branch must be the last direct child of the condition''"
  define eb where "eb = else_branch_errors L opts ?nid2 d"
  obtain l le r re where
    pl: "parse_side L opts ?nid d ''lhs'' = Inr (l, le)"
    and pr: "parse_side L opts ?nid d ''rhs'' = Inr (r, re)"
    and v: "validate_condition_node L opts (JDict d) =
             finish (Inr (cond_type_errors d @ cond_operator_errors ?nid d @ le @ re
                          @ cond_constraint_errors ?nid d l r
                          @ cond_id_desc_errors ?nid d @ eb))"
    unfolding eb_def using validate_condition_node_result[OF lhs rhs, of L opts] by blast
  have from_eb: "\<exists>errs. validate_condition_node L opts (JDict d) = Inr (False, errs) \<and> m \<in> set errs"
    if "m \<in> set eb" for m
  proof -
    from that have "m \<in> set (cond_type_errors d @ cond_operator_errors ?nid d @ le @ re
                          @ cond_constraint_errors ?nid d l r
                          @ cond_id_desc_errors ?nid d @ eb)"
      by simp
    then show ?thesis unfolding v by (rule finish_with_error)
  qed
  have p1: "\<exists>errs. validate_condition_node L opts (JDict d) = Inr (False, errs) \<and> multiple \<in> set errs"
    if "1 < length idxs"
  proof (rule from_eb)
    from that ve idxs show "multiple \<in> set eb"
      by (simp add: eb_def else_branch_errors_def Let_def multiple_def)
  qed
  have p2: "\<exists>errs. validate_condition_node L opts (JDict d) = Inr (False, errs) \<and> lastmsg \<in> set errs"
    if "else_must_be_last opts" and "idxs \<noteq> []" and "Suc (hd idxs) \<noteq> length ?cs"
  proof (rule from_eb)
    from that(3) have "int (hd idxs) \<noteq> int (length ?cs) - 1" by arith
    with that(1) have "lastmsg \<in> set (else_node_errors opts ?nid2 ?cs (hd idxs))"
      by (simp add: else_node_errors_def Let_def lastmsg_def)
    with that(2) ve idxs show "lastmsg \<in> set eb"
      by (simp add: eb_def else_branch_errors_def Let_def)
  qed
  have p3: "length idxs = 1
            \<and> (\<exists>ok errs. validate_condition_node L opts (JDict d) = Inr (ok, errs)
                  \<and> lastmsg \<notin> set errs)
            \<and> (has_children (last ?cs) \<and> 2 \<le> length ?cs \<longrightarrow> eb = [])"
    if ne: "idxs \<noteq> []" and fin: "Suc (hd idxs) = length ?cs"
  proof (intro conjI impI)
    from ne fin idxs have only: "idxs = [length ?cs - 1]"
      using else_idxs_last_only by blast
    then show "length idxs = 1" by simp
    from fin have "int (hd idxs) = int (length ?cs) - 1" by arith
    with idxs have "\<forall>e\<in>set eb. last e \<noteq> CHR ''n''"
      unfolding eb_def by (intro else_branch_messages_n) simp
    with parse_side_messages_n[OF pl] parse_side_messages_n[OF pr]
      cond_type_messages_n[of d] cond_operator_messages_n[of ?nid d]
      cond_constraint_messages_n[of ?nid d l r] cond_id_desc_messages_n[of ?nid d]
    have "\<forall>e\<in>set (cond_type_errors d @ cond_operator_errors ?nid d @ le @ re
                          @ cond_constraint_errors ?nid d l r
                          @ cond_id_desc_errors ?nid d @ eb). last e \<noteq> CHR ''n''"
      by (simp only: set_append ball_Un)
    moreover have "last lastmsg = CHR ''n''" by (simp add: lastmsg_def)
    ultimately have "lastmsg \<notin> set (cond_type_errors d @ cond_operator_errors ?nid d @ le @ re
                          @ cond_constraint_errors ?nid d l r
                          @ cond_id_desc_errors ?nid d @ eb)"
      by blast
    then show "\<exists>ok errs. validate_condition_node L opts (JDict d) = Inr (ok, errs)
                  \<and> lastmsg \<notin> set errs"
      unfolding v by (simp add: finish_def)
    assume hc: "has_children (last ?cs) \<and> 2 \<le> length ?cs"
    from fin have csne: "?cs \<noteq> []" by auto
    from fin have "length ?cs - 1 = hd idxs" by arith
    with csne have lst: "last ?cs = ?cs ! hd idxs"
      by (simp add: last_conv_nth)
    from csne have il: "is_list (let c = py_get_default d ''children'' (JList [])
                                 in if c = JNull then JList [] else c)"
      by (rule cond_children_nonempty_is_list)
    from hc lst fin have "else_node_errors opts ?nid2 ?cs (hd idxs) = []"
      by (intro else_node_errors_none) simp_all
    with il ne only idxs ve show "eb = []"
      by (simp add: eb_def else_branch_errors_def Let_def)
  qed
  show ?thesis
  proof (intro conjI impI)
    assume "1 < length idxs"
    from p1[OF this]
    show "\<exists>errs. validate_condition_node L opts (JDict d) = Inr (False, errs)
               \<and> for_condition ?nid2
                    @ '',condition has multiple Else branch groups; only one is allowed'' \<in> set errs"
      by (simp only: multiple_def)
  next
    assume a: "else_must_be_last opts \<and> idxs \<noteq> [] \<and> Suc (hd idxs) \<noteq> length ?cs"
    then have "else_must_be_last opts" "idxs \<noteq> []" "Suc (hd idxs) \<noteq> length ?cs" by simp_all
    from p2[OF this]
    show "\<exists>errs. validate_condition_node L opts (JDict d) = Inr (False, errs)
               \<and> for_condition ?nid2
                    @ '',Else branch must be the last direct child of the condition'' \<in> set errs"
      by (simp only: lastmsg_def)
  next
    assume a: "idxs \<noteq> [] \<and> Suc (hd idxs) = length ?cs"
    then have "idxs \<noteq> []" "Suc (hd idxs) = length ?cs" by simp_all
    from p3[OF this] show "length idxs = 1" by (rule conjunct1)
  next
    assume a: "idxs \<noteq> [] \<and> Suc (hd idxs) = length ?cs"
    then have "idxs \<noteq> []" "Suc (hd idxs) = length ?cs" by simp_all
    from p3[OF this]
    show "\<exists>ok errs. validate_condition_node L opts (JDict d) = Inr (ok, errs)
                  \<and> for_condition ?nid2
                       @ '',Else branch must be the last direct child of the condition'' \<notin> set errs"
      by (simp only: lastmsg_def)
  next
    assume a: "idxs \<noteq> [] \<and> Suc (hd idxs) = length ?cs"
      and b: "has_children (last ?cs) \<and> 2 \<le> length ?cs"
    from a have "idxs \<noteq> []" "Suc (hd idxs) = length ?cs" by simp_all
    from p3[OF this] b show "else_branch_errors L opts ?nid2 d = []"
      by (simp only: eb_def)
  qed
qed

text \<open>
  Claim C6 fails on the code.  A condition node whose else-group (description \<^verbatim>\<open>" ELSE Branch "\<close>,
  matched up to case and surrounding blanks) comes before the then-group, and whose \<^verbatim>\<open>rhs\<close> is an
  integer literal beyond the doubles, is not reported invalid: \<^verbatim>\<open>float(x)\<close> in \<^verbatim>\<open>_parse_operand\<close>
  raises \<^verbatim>\<open>OverflowError\<close> before the else-branch checks are reached.  With \<^verbatim>\<open>rhs\<close> 100 the same
  children are reported as the claim says: an else-group that is not last is invalid, two
  else-groups are invalid, and a single final else-group is accepted.
\<close>

theorem else_branch_placement_raises:
  "validate_condition_node plain_lib default_cond_opts
       (JDict (else_example_huge [else_group_mixed_case, then_group]))
     = Inl OverflowError
   \<and> validate_condition_node plain_lib default_cond_opts
       (JDict (else_example [else_group_mixed_case, then_group]))
     = Inr (False, [''For condition 'None',Else branch must be the last direct child of the condition''])
   \<and> validate_condition_node plain_lib default_cond_opts
       (JDict (else_example [then_group, else_group_mixed_case, else_group_mixed_case]))
     = Inr (False, [''For condition 'None',condition has multiple Else branch groups; only one is allowed'',
                    ''For condition 'None',Else branch must be the last direct child of the condition''])
   \<and> validate_condition_node plain_lib default_cond_opts
       (JDict (else_example [then_group, else_group_mixed_case]))
     = Inr (True, [])"
  by code_simp

section \<open>Exceptions that escape from the node validators\<close>

text \<open>
  Claim C2 fails on the code.  \<^verbatim>\<open>validate_filter_node\<close> on a node that is no dict reaches
  \<^verbatim>\<open>return False. errors\<close> and raises \<^verbatim>\<open>AttributeError\<close>; \<^verbatim>\<open>validate_weight_node\<close> calls \<^verbatim>\<open>node.get\<close>
  before its dict test; \<^verbatim>\<open>validate_order_node\<close> reads the unassigned local \<^verbatim>\<open>w\<close> after the handler
  of a weight that is no number; \<^verbatim>\<open>validate_group_node\<close> calls \<^verbatim>\<open>child.get\<close> on a child that is no
  dict; \<^verbatim>\<open>validate_condition_node\<close> converts an integer literal beyond the doubles.
\<close>

theorem validators_raise:
  "validate_filter_node plain_lib default_filter_opts JNull = Inl AttributeError
   \<and> validate_filter_node plain_lib default_filter_opts (JList []) = Inl AttributeError
   \<and> validate_weight_node plain_lib JNull = Inl AttributeError
   \<and> validate_order_node plain_lib order_null_weight [''SPY''] = Inl UnboundLocalError
   \<and> validate_order_node plain_lib order_text_weight [''SPY''] = Inl UnboundLocalError
   \<and> validate_group_node plain_lib default_group_opts group_number_child = Inl AttributeError
   \<and> validate_condition_node plain_lib default_cond_opts condition_huge_literal = Inl OverflowError"
  by code_simp

section \<open>Properties of the whole-tree validation\<close>










text \<open>
  Claim C9 fails on the code.  A root node that has a \<^verbatim>\<open>children\<close> field is never passed to
  \<^verbatim>\<open>check_node_type_and_validate\<close>: a root of unknown type and an invalid order node as root are
  both accepted in silence, while the same unknown type is reported for a child.  Children that
  are no dicts are skipped.
\<close>

theorem root_with_children_is_not_validated:
  "validate_logic plain_lib unknown_root [''SPY''] = Returned
   \<and> validate_logic plain_lib invalid_order_root [''SPY''] = Returned
   \<and> validate_order_node plain_lib invalid_order_root [''SPY'']
     = Inr (False, [''For order 'None', order.side must be 'long' or 'short'' @ sq,
                    ''For order '{node_id}', No symbols found: provide at least one via weights, symbol_filter, or universe''])
   \<and> validate_logic plain_lib unknown_child [''SPY''] = Exited [''Error: Unknown node type: bogus'']
   \<and> validate_logic plain_lib (JDict [(''children'', JList [JInt 5, JStr ''x''])]) [''SPY''] = Returned"
  by code_simp

text \<open>In general: a node that is no dict makes the filter and the weight validator raise, and
  the traversal reads nothing of a root but its \<^verbatim>\<open>children\<close>.\<close>

lemma filter_and_weight_raise_on_non_dict:
  assumes "\<not> is_dict node"
  shows "validate_filter_node L opts node = Inl AttributeError"
    and "validate_weight_node L node = Inl AttributeError"
  using assms by (cases node; simp add: validate_filter_node_def validate_weight_node_def)+

lemma root_fields_are_not_read:
  assumes "map_of d ''children'' = Some v" and "map_of d' ''children'' = Some v"
  shows "validate_logic L (JDict d) allowed_symbols = validate_logic L (JDict d') allowed_symbols"
  using assms by (simp add: validate_logic_def trace_json_data_recursive.simps)

section \<open>Properties of the indicator registry\<close>

lemma dict_set_idem: "dict_set k v (dict_set k v xs) = dict_set k v xs"
  by (induction xs) auto

lemma keys_dict_set:
  "map fst (dict_set k v xs) = (if k \<in> fst ` set xs then map fst xs else map fst xs @ [k])"
proof (induction xs)
  case Nil
  then show ?case by simp
next
  case (Cons p xs)
  obtain k' v' where p: "p = (k', v')" by (cases p)
  show ?case
  proof (cases "k' = k")
    case True
    then show ?thesis by (simp add: p)
  next
    case False
    with Cons show ?thesis by (simp add: p)
  qed
qed

lemma key_part_dict: "\<exists>ps. key_part L pre k (JDict a) = Inr ps"
  by (simp add: key_part_def split: bool.splits)

lemma fast_slow_part_dict: "\<exists>ps. fast_slow_part L (JDict a) = Inr ps"
  by (simp add: fast_slow_part_def split: bool.splits)

lemma create_indicator_key_returns:
  assumes "symbol = JNull \<or> is_str symbol" and "is_dict args"
  shows "\<exists>k. create_indicator_key L name symbol args = Inr k"
proof -
  from assms(2) obtain a where a: "args = JDict a" by (cases args) simp_all
  obtain p1 where p1: "key_part L [] ''period'' (JDict a) = Inr p1"
    using key_part_dict by blast
  obtain p2 where p2: "key_part L ''s'' ''smoothing'' (JDict a) = Inr p2"
    using key_part_dict by blast
  obtain p3 where p3: "fast_slow_part L (JDict a) = Inr p3"
    using fast_slow_part_dict by blast
  from assms(1) have "\<exists>ps. (if truthy symbol
            then (case py_upper L symbol of Inl e \<Rightarrow> Inl e | Inr u \<Rightarrow> Inr [name, u])
            else Inr [name]) = Inr ps"
    by (cases symbol) auto
  then obtain ps where "(if truthy symbol
            then (case py_upper L symbol of Inl e \<Rightarrow> Inl e | Inr u \<Rightarrow> Inr [name, u])
            else Inr [name]) = Inr ps" by blast
  then show ?thesis
    by (simp add: create_indicator_key_def a p1 p2 p3)
qed

text \<open>What \<^verbatim>\<open>_process_indicator\<close> does, by the three cases of the configuration.\<close>

lemma process_indicator_unimplemented:
  assumes "config_name L c \<notin> set IMPLEMENTED_INDICATORS"
  shows "process_indicator L r (JDict c) = Inr r"
  using assms by (simp add: process_indicator_def Let_def)

lemma process_indicator_no_symbol:
  assumes "config_name L c \<in> set IMPLEMENTED_INDICATORS" and "config_symbol c = JNull"
    and "indicator_key L c = Inr k"
  shows "process_indicator L r (JDict c) =
           Inr (if config_name L c \<in> set CUSTOM_INDICATORS
                then r\<lparr>custom_methods_needed := insert (config_name L c) (custom_methods_needed r)\<rparr>
                else r)"
  using assms by (simp add: process_indicator_def indicator_key_def Let_def)

lemma process_indicator_stored:
  assumes "config_name L c \<in> set IMPLEMENTED_INDICATORS" and "config_symbol c = JStr s"
    and "indicator_key L c = Inr k"
  shows "process_indicator L r (JDict c) =
           Inr ((if config_name L c \<in> set CUSTOM_INDICATORS
                 then (\<lambda>r1. r1\<lparr>custom_methods_needed := insert (config_name L c) (custom_methods_needed r1)\<rparr>)
                 else (\<lambda>r1. r1))
                (r\<lparr>indicators_used :=
                     dict_set k \<lparr>cfg_name = config_name L c, cfg_symbol = upper L s, cfg_args = config_args c\<rparr>
                       (indicators_used r)\<rparr>))"
  using assms by (simp add: process_indicator_def indicator_key_def Let_def)

lemma indicator_key_returns:
  assumes "config_ok c"
  shows "\<exists>k. indicator_key L c = Inr k"
  using assms create_indicator_key_returns[of "config_symbol c" "config_args c" L "config_name L c"]
  by (simp add: indicator_key_def config_ok_def)

lemma process_indicator_idempotent:
  assumes "process_indicator L r (JDict c) = Inr r1"
  shows "process_indicator L r1 (JDict c) = Inr r1"
proof (cases "config_name L c \<in> set IMPLEMENTED_INDICATORS")
  case False
  then show ?thesis by (rule process_indicator_unimplemented)
next
  case True
  with assms obtain k where k: "indicator_key L c = Inr k"
    by (cases "indicator_key L c") (simp_all add: process_indicator_def indicator_key_def Let_def)
  show ?thesis
  proof (cases "config_symbol c = JNull")
    case n: True
    from assms show ?thesis
      unfolding process_indicator_no_symbol[OF True n k]
      by (auto split: if_splits)
  next
    case False
    with assms True k obtain s where s: "config_symbol c = JStr s"
      by (cases "config_symbol c")
         (simp_all add: process_indicator_def indicator_key_def Let_def)
    from assms show ?thesis
      unfolding process_indicator_stored[OF True s k]
      by (auto simp: dict_set_idem split: if_splits)
  qed
qed

lemma process_indicator_returns:
  assumes "config_ok c"
  shows "\<exists>r1. process_indicator L r (JDict c) = Inr r1"
proof (cases "config_name L c \<in> set IMPLEMENTED_INDICATORS")
  case False
  then show ?thesis using process_indicator_unimplemented by blast
next
  case True
  obtain k where k: "indicator_key L c = Inr k"
    using indicator_key_returns[OF assms] by blast
  show ?thesis
  proof (cases "config_symbol c = JNull")
    case n: True
    show ?thesis unfolding process_indicator_no_symbol[OF True n k] by blast
  next
    case False
    with assms obtain s where s: "config_symbol c = JStr s"
      by (cases "config_symbol c") (simp_all add: config_ok_def)
    show ?thesis unfolding process_indicator_stored[OF True s k] by blast
  qed
qed

lemma process_indicator_registrable:
  assumes "registrable L c" and "indicator_key L c = Inr k"
  shows "\<exists>r1. process_indicator L r (JDict c) = Inr r1
           \<and> map fst (indicators_used r1)
               = (if k \<in> fst ` set (indicators_used r) then map fst (indicators_used r)
                  else map fst (indicators_used r) @ [k])"
proof -
  from assms(1) have impl: "config_name L c \<in> set IMPLEMENTED_INDICATORS"
    by (simp add: registrable_def)
  from assms(1) obtain s where s: "config_symbol c = JStr s"
    by (cases "config_symbol c") (simp_all add: registrable_def)
  show ?thesis
    unfolding process_indicator_stored[OF impl s assms(2)]
    by (simp add: keys_dict_set)
qed

lemma process_indicator_not_registrable:
  assumes "\<not> registrable L c" and "process_indicator L r (JDict c) = Inr r1"
  shows "indicators_used r1 = indicators_used r"
proof (cases "config_name L c \<in> set IMPLEMENTED_INDICATORS")
  case False
  with assms(2) show ?thesis by (simp add: process_indicator_unimplemented)
next
  case True
  with assms(2) obtain k where k: "indicator_key L c = Inr k"
    by (cases "indicator_key L c") (simp_all add: process_indicator_def indicator_key_def Let_def)
  from True assms(1) have ns: "\<not> is_str (config_symbol c)" by (simp add: registrable_def)
  show ?thesis
  proof (cases "config_symbol c = JNull")
    case n: True
    from assms(2) show ?thesis
      unfolding process_indicator_no_symbol[OF True n k] by (auto split: if_splits)
  next
    case False
    with ns assms(2) True k show ?thesis
      by (cases "config_symbol c")
         (simp_all add: process_indicator_def indicator_key_def Let_def)
  qed
qed

text \<open>
  Claim C1, as the code has it.  For a configuration \<open>c\<close> on which \<^verbatim>\<open>_process_indicator\<close> raises
  nothing: a second identical registration leaves the registry as the first one left it, so the
  number of entries is invariant under repeated identical calls; from the empty registry, a
  configuration with an implemented name and a string symbol has exactly one entry after two
  registrations, under its canonical key, and any other configuration has none; and a second
  registrable configuration with the same canonical key adds no entry to the one of the first.
\<close>

theorem registration_idempotent:
  assumes ok: "config_ok c"
  shows "(\<exists>r1. process_indicator L r (JDict c) = Inr r1
            \<and> process_indicator L r1 (JDict c) = Inr r1)
       \<and> (registrable L c \<longrightarrow>
            (\<exists>r1 k. process_indicator L init_registry (JDict c) = Inr r1
               \<and> process_indicator L r1 (JDict c) = Inr r1
               \<and> indicator_key L c = Inr k
               \<and> map fst (indicators_used r1) = [k]))
       \<and> (\<not> registrable L c \<longrightarrow>
            (\<exists>r1. process_indicator L r (JDict c) = Inr r1
               \<and> process_indicator L r1 (JDict c) = Inr r1
               \<and> indicators_used r1 = indicators_used r))
       \<and> (registrable L c \<and> registrable L c' \<and> indicator_key L c' = indicator_key L c \<longrightarrow>
            (\<exists>r1 r2. process_indicator L r (JDict c) = Inr r1
               \<and> process_indicator L r1 (JDict c') = Inr r2
               \<and> map fst (indicators_used r2) = map fst (indicators_used r1)))"
proof (intro conjI impI)
  obtain r1 where r1: "process_indicator L r (JDict c) = Inr r1"
    using process_indicator_returns[OF ok] by blast
  then have again: "process_indicator L r1 (JDict c) = Inr r1"
    by (rule process_indicator_idempotent)
  from r1 again show "\<exists>r1. process_indicator L r (JDict c) = Inr r1
            \<and> process_indicator L r1 (JDict c) = Inr r1" by blast
  {
    assume "\<not> registrable L c"
    then have "indicators_used r1 = indicators_used r"
      using r1 by (rule process_indicator_not_registrable)
    with r1 again show "\<exists>r1. process_indicator L r (JDict c) = Inr r1
               \<and> process_indicator L r1 (JDict c) = Inr r1
               \<and> indicators_used r1 = indicators_used r" by blast
  }
  obtain k where k: "indicator_key L c = Inr k"
    using indicator_key_returns[OF ok] by blast
  {
    assume reg: "registrable L c"
    obtain q where q: "process_indicator L init_registry (JDict c) = Inr q"
      and keys: "map fst (indicators_used q) = [k]"
      using process_indicator_registrable[OF reg k, of init_registry]
      by (auto simp: init_registry_def)
    from q have "process_indicator L q (JDict c) = Inr q"
      by (rule process_indicator_idempotent)
    with q keys k have "process_indicator L init_registry (JDict c) = Inr q
               \<and> process_indicator L q (JDict c) = Inr q
               \<and> indicator_key L c = Inr k
               \<and> map fst (indicators_used q) = [k]" by simp
    then show "\<exists>r1 k. process_indicator L init_registry (JDict c) = Inr r1
               \<and> process_indicator L r1 (JDict c) = Inr r1
               \<and> indicator_key L c = Inr k
               \<and> map fst (indicators_used r1) = [k]" by (intro exI)
  }
  {
    assume a: "registrable L c \<and> registrable L c' \<and> indicator_key L c' = indicator_key L c"
    then have reg: "registrable L c" and reg': "registrable L c'"
      and k': "indicator_key L c' = Inr k" using k by simp_all
    obtain q where q: "process_indicator L r (JDict c) = Inr q"
      and keys: "map fst (indicators_used q)
               = (if k \<in> fst ` set (indicators_used r) then map fst (indicators_used r)
                  else map fst (indicators_used r) @ [k])"
      using process_indicator_registrable[OF reg k, of r] by blast
    from keys have mem: "k \<in> fst ` set (indicators_used q)"
      by (metis (full_types) in_set_conv_decomp list.set_map)
    obtain q2 where q2: "process_indicator L q (JDict c') = Inr q2"
      and keys2: "map fst (indicators_used q2)
               = (if k \<in> fst ` set (indicators_used q) then map fst (indicators_used q)
                  else map fst (indicators_used q) @ [k])"
      using process_indicator_registrable[OF reg' k', of q] by blast
    from keys2 mem have "map fst (indicators_used q2) = map fst (indicators_used q)" by simp
    with q q2 show "\<exists>r1 r2. process_indicator L r (JDict c) = Inr r1
               \<and> process_indicator L r1 (JDict c') = Inr r2
               \<and> map fst (indicators_used r2) = map fst (indicators_used r1)" by blast
  }
qed

theorem registration_idempotent_witness:
  "config_ok rsi_config \<and> registrable plain_lib rsi_config
   \<and> registrable plain_lib rsi_config_variant
   \<and> indicator_key plain_lib rsi_config_variant = indicator_key plain_lib rsi_config
   \<and> indicator_key plain_lib rsi_config = Inr ''rsi_SPY_14''
   \<and> (\<exists>r1. process_indicator plain_lib init_registry (JDict rsi_config) = Inr r1
          \<and> process_indicator plain_lib r1 (JDict rsi_config) = Inr r1
          \<and> map fst (indicators_used r1) = [''rsi_SPY_14''])
   \<and> (\<exists>r1 r2. process_indicator plain_lib init_registry (JDict rsi_config) = Inr r1
          \<and> process_indicator plain_lib r1 (JDict rsi_config_variant) = Inr r2
          \<and> map fst (indicators_used r2) = map fst (indicators_used r1))
   \<and> config_ok sma_config \<and> \<not> registrable plain_lib sma_config
   \<and> (\<exists>r1. process_indicator plain_lib init_registry (JDict sma_config) = Inr r1
          \<and> process_indicator plain_lib r1 (JDict sma_config) = Inr r1
          \<and> indicators_used r1 = indicators_used init_registry)"
proof -
  have a1: "config_ok rsi_config" by code_simp
  have a2: "registrable plain_lib rsi_config" by code_simp
  have a3: "registrable plain_lib rsi_config_variant" by code_simp
  have a4: "indicator_key plain_lib rsi_config = Inr ''rsi_SPY_14''" by code_simp
  have a5: "indicator_key plain_lib rsi_config_variant = Inr ''rsi_SPY_14''" by code_simp
  have b1: "config_ok sma_config" by code_simp
  have b2: "\<not> registrable plain_lib sma_config" by code_simp
  note t = registration_idempotent[OF a1, of plain_lib init_registry rsi_config_variant]
  from t a2 a4 have c1: "\<exists>r1. process_indicator plain_lib init_registry (JDict rsi_config) = Inr r1
          \<and> process_indicator plain_lib r1 (JDict rsi_config) = Inr r1
          \<and> map fst (indicators_used r1) = [''rsi_SPY_14'']"
    by auto
  from t a2 a3 a4 a5
  have c2: "\<exists>r1 r2. process_indicator plain_lib init_registry (JDict rsi_config) = Inr r1
          \<and> process_indicator plain_lib r1 (JDict rsi_config_variant) = Inr r2
          \<and> map fst (indicators_used r2) = map fst (indicators_used r1)"
    by simp
  from registration_idempotent[OF b1, of plain_lib init_registry sma_config] b2
  have c3: "\<exists>r1. process_indicator plain_lib init_registry (JDict sma_config) = Inr r1
          \<and> process_indicator plain_lib r1 (JDict sma_config) = Inr r1
          \<and> indicators_used r1 = indicators_used init_registry"
    by simp
  from a1 a2 a3 a4 a5 c1 c2 b1 b2 c3 show ?thesis by simp
qed

text \<open>
  Claim C1 as stated fails: \<^verbatim>\<open>sma\<close> is in the validator's metric vocabulary and not among the
  implemented indicators, so registering such a configuration twice, directly or through
  \<^verbatim>\<open>get_indicator_value_code\<close>, leaves no entry in the indicator map.
\<close>

theorem registration_counterexample:
  "process_indicator plain_lib init_registry (JDict sma_config)
     = Inr \<lparr>indicators_used = [], custom_methods_needed = {}\<rparr>
   \<and> process_indicator plain_lib \<lparr>indicators_used = [], custom_methods_needed = {}\<rparr> (JDict sma_config)
     = Inr \<lparr>indicators_used = [], custom_methods_needed = {}\<rparr>
   \<and> get_indicator_value_code plain_lib \<lparr>indicators_used = [], custom_methods_needed = {}\<rparr>
        (JDict sma_config)
     = Inr (''(self.spy_sma_20.current.value)'', \<lparr>indicators_used = [], custom_methods_needed = {}\<rparr>)
   \<and> length (indicators_used \<lparr>indicators_used = [], custom_methods_needed = {}\<rparr>) = 0"
  by code_simp

lemma custom_is_implemented: "set CUSTOM_INDICATORS \<subseteq> set IMPLEMENTED_INDICATORS"
  by (simp add: CUSTOM_INDICATORS_def IMPLEMENTED_INDICATORS_def)

lemma period_or_dict: "\<exists>p. period_or L (JDict a) dflt = Inr p"
  by (simp add: period_or_def)

lemma value_code_returns:
  assumes "value_code_ok c"
  shows "\<exists>code. value_code L c = Inr code"
proof -
  from assms obtain n s a where n: "py_get_default c ''name'' (JStr []) = JStr n"
    and s: "py_get_default c ''symbol'' (JStr []) = JStr s"
    and a: "py_get_default c ''args'' (JDict []) = JDict a"
    unfolding value_code_ok_def
    by (metis is_str.elims(2) is_dict.elims(2))
  obtain p1 where p1: "period_or L (JDict a) 20 = Inr p1" using period_or_dict by blast
  obtain p2 where p2: "period_or L (JDict a) 252 = Inr p2" using period_or_dict by blast
  show ?thesis
    unfolding value_code_def n s a Let_def
    by (simp add: p1 p2 split: bool.splits)
qed

lemma get_indicator_value_code_Inr:
  assumes "get_indicator_value_code L r cfg = Inr (code, r2)"
  shows "process_indicator L r cfg = Inr r2"
  using assms
  by (auto simp: get_indicator_value_code_def split: sum.splits json.splits)

lemma init_code_same:
  "indicators_used r2 = indicators_used r \<Longrightarrow>
     generate_initialization_code L r2 = generate_initialization_code L r"
  by (simp add: generate_initialization_code_def)

lemma process_indicator_frame:
  assumes "config_name L c \<notin> set IMPLEMENTED_INDICATORS \<or> config_symbol c = JNull"
    and "process_indicator L r (JDict c) = Inr r1"
  shows "indicators_used r1 = indicators_used r"
    and "custom_methods_needed r1 =
           (if config_name L c \<in> set IMPLEMENTED_INDICATORS \<and> config_name L c \<in> set CUSTOM_INDICATORS
            then insert (config_name L c) (custom_methods_needed r)
            else custom_methods_needed r)"
proof -
  have "indicators_used r1 = indicators_used r \<and> custom_methods_needed r1 =
           (if config_name L c \<in> set IMPLEMENTED_INDICATORS \<and> config_name L c \<in> set CUSTOM_INDICATORS
            then insert (config_name L c) (custom_methods_needed r)
            else custom_methods_needed r)"
  proof (cases "config_name L c \<in> set IMPLEMENTED_INDICATORS")
    case False
    with assms(2) show ?thesis by (simp add: process_indicator_unimplemented)
  next
    case True
    with assms(1) have n: "config_symbol c = JNull" by simp
    from True assms(2) obtain k where k: "indicator_key L c = Inr k"
      by (cases "indicator_key L c") (simp_all add: process_indicator_def indicator_key_def Let_def)
    from assms(2) True show ?thesis
      unfolding process_indicator_no_symbol[OF True n k] by (auto split: if_splits)
  qed
  then show "indicators_used r1 = indicators_used r"
    and "custom_methods_needed r1 =
           (if config_name L c \<in> set IMPLEMENTED_INDICATORS \<and> config_name L c \<in> set CUSTOM_INDICATORS
            then insert (config_name L c) (custom_methods_needed r)
            else custom_methods_needed r)"
    by simp_all
qed

text \<open>
  Claim C10, as the code has it.  A configuration whose lowercased name is not implemented
  leaves the registry as it is.  A configuration whose symbol is absent (\<^verbatim>\<open>None\<close>) leaves
  \<^verbatim>\<open>indicators_used\<close> as it is, and \<^verbatim>\<open>custom_methods_needed\<close> too unless its name is one of the
  custom indicators, which \<^verbatim>\<open>_process_indicator\<close> adds to the set.  In both cases a call of
  \<^verbatim>\<open>get_indicator_value_code\<close> that returns leaves \<^verbatim>\<open>indicators_used\<close> and with it the
  initialization code unchanged; and it does return an access expression when the name and the
  symbol are strings (or the symbol key is missing) and \<^verbatim>\<open>args\<close> is a dict.
\<close>

theorem unregistered_metric_frame:
  "(config_name L c \<notin> set IMPLEMENTED_INDICATORS \<longrightarrow> process_indicator L r (JDict c) = Inr r)
   \<and> (config_symbol c = JNull \<and> process_indicator L r (JDict c) = Inr r1 \<longrightarrow>
        indicators_used r1 = indicators_used r
        \<and> custom_methods_needed r1 =
            (if config_name L c \<in> set IMPLEMENTED_INDICATORS \<and> config_name L c \<in> set CUSTOM_INDICATORS
             then insert (config_name L c) (custom_methods_needed r)
             else custom_methods_needed r))
   \<and> ((config_name L c \<notin> set IMPLEMENTED_INDICATORS \<or> config_symbol c = JNull)
        \<and> get_indicator_value_code L r (JDict c) = Inr (code, r2) \<longrightarrow>
        indicators_used r2 = indicators_used r
        \<and> generate_initialization_code L r2 = generate_initialization_code L r)
   \<and> (value_code_ok c \<and> (config_name L c \<notin> set IMPLEMENTED_INDICATORS \<or> \<not> has_key c ''symbol'') \<longrightarrow>
        (\<exists>code r2. get_indicator_value_code L r (JDict c) = Inr (code, r2)
           \<and> indicators_used r2 = indicators_used r))"
proof (intro conjI impI)
  assume "config_name L c \<notin> set IMPLEMENTED_INDICATORS"
  then show "process_indicator L r (JDict c) = Inr r"
    by (rule process_indicator_unimplemented)
next
  assume a: "config_symbol c = JNull \<and> process_indicator L r (JDict c) = Inr r1"
  then have f: "config_name L c \<notin> set IMPLEMENTED_INDICATORS \<or> config_symbol c = JNull"
    and p: "process_indicator L r (JDict c) = Inr r1" by simp_all
  from process_indicator_frame(1)[OF f p] show "indicators_used r1 = indicators_used r" .
  from process_indicator_frame(2)[OF f p]
  show "custom_methods_needed r1 =
            (if config_name L c \<in> set IMPLEMENTED_INDICATORS \<and> config_name L c \<in> set CUSTOM_INDICATORS
             then insert (config_name L c) (custom_methods_needed r)
             else custom_methods_needed r)" .
next
  assume a: "(config_name L c \<notin> set IMPLEMENTED_INDICATORS \<or> config_symbol c = JNull)
        \<and> get_indicator_value_code L r (JDict c) = Inr (code, r2)"
  then have f: "config_name L c \<notin> set IMPLEMENTED_INDICATORS \<or> config_symbol c = JNull" by simp
  from a have p: "process_indicator L r (JDict c) = Inr r2"
    using get_indicator_value_code_Inr by blast
  from process_indicator_frame(1)[OF f p] show u: "indicators_used r2 = indicators_used r" .
  then show "generate_initialization_code L r2 = generate_initialization_code L r"
    by (rule init_code_same)
next
  assume a: "value_code_ok c \<and> (config_name L c \<notin> set IMPLEMENTED_INDICATORS \<or> \<not> has_key c ''symbol'')"
  then have vok: "value_code_ok c" by simp
  obtain code where code: "value_code L c = Inr code"
    using value_code_returns[OF vok] by blast
  from a have f: "config_name L c \<notin> set IMPLEMENTED_INDICATORS \<or> config_symbol c = JNull"
    by (auto simp: has_key_def config_symbol_def py_get_def)
  have "\<exists>r2. process_indicator L r (JDict c) = Inr r2"
  proof (cases "config_name L c \<in> set IMPLEMENTED_INDICATORS")
    case False
    then show ?thesis using process_indicator_unimplemented by blast
  next
    case True
    with f have "config_symbol c = JNull" by simp
    moreover from vok have "is_dict (config_args c)"
      by (simp add: value_code_ok_def config_args_def)
    ultimately have "config_ok c" by (simp add: config_ok_def)
    then show ?thesis by (rule process_indicator_returns)
  qed
  then obtain r2 where p: "process_indicator L r (JDict c) = Inr r2" by blast
  from process_indicator_frame(1)[OF f p] have u: "indicators_used r2 = indicators_used r" .
  from p code have "get_indicator_value_code L r (JDict c) = Inr (code, r2)"
    by (simp add: get_indicator_value_code_def)
  with u have "get_indicator_value_code L r (JDict c) = Inr (code, r2)
           \<and> indicators_used r2 = indicators_used r" by simp
  then show "\<exists>code r2. get_indicator_value_code L r (JDict c) = Inr (code, r2)
           \<and> indicators_used r2 = indicators_used r" by (intro exI)
qed

theorem unregistered_metric_frame_witness:
  "config_name plain_lib sma_config \<notin> set IMPLEMENTED_INDICATORS
   \<and> process_indicator plain_lib init_registry (JDict sma_config) = Inr init_registry
   \<and> value_code_ok sma_config
   \<and> (\<exists>code r2. get_indicator_value_code plain_lib init_registry (JDict sma_config) = Inr (code, r2)
          \<and> indicators_used r2 = indicators_used init_registry)
   \<and> config_symbol max_drawdown_no_symbol = JNull
   \<and> process_indicator plain_lib init_registry (JDict max_drawdown_no_symbol)
       = Inr \<lparr>indicators_used = [], custom_methods_needed = {''max-drawdown''}\<rparr>
   \<and> indicators_used \<lparr>indicators_used = [], custom_methods_needed = {''max-drawdown''}\<rparr>
       = indicators_used init_registry
   \<and> get_indicator_value_code plain_lib init_registry (JDict max_drawdown_no_symbol)
       = Inr (''(self._max_drawdown_252.current.value)'',
              \<lparr>indicators_used = [], custom_methods_needed = {''max-drawdown''}\<rparr>)
   \<and> generate_initialization_code plain_lib
         \<lparr>indicators_used = [], custom_methods_needed = {''max-drawdown''}\<rparr>
       = generate_initialization_code plain_lib init_registry"
proof -
  let ?R = "\<lparr>indicators_used = [], custom_methods_needed = {''max-drawdown''}\<rparr>"
  have a1: "config_name plain_lib sma_config \<notin> set IMPLEMENTED_INDICATORS" by code_simp
  have a2: "value_code_ok sma_config" by code_simp
  have b1: "config_symbol max_drawdown_no_symbol = JNull" by code_simp
  have b2: "process_indicator plain_lib init_registry (JDict max_drawdown_no_symbol) = Inr ?R"
    by code_simp
  have b3: "get_indicator_value_code plain_lib init_registry (JDict max_drawdown_no_symbol)
       = Inr (''(self._max_drawdown_252.current.value)'', ?R)"
    by code_simp
  note s = unregistered_metric_frame[of plain_lib sma_config init_registry]
  note m = unregistered_metric_frame[of plain_lib max_drawdown_no_symbol init_registry ?R
             "''(self._max_drawdown_252.current.value)''" ?R]
  from s a1 have c1: "process_indicator plain_lib init_registry (JDict sma_config) = Inr init_registry"
    by blast
  from s a1 a2
  have c2: "\<exists>code r2. get_indicator_value_code plain_lib init_registry (JDict sma_config) = Inr (code, r2)
          \<and> indicators_used r2 = indicators_used init_registry"
    by blast
  from m b1 b2 have c3: "indicators_used ?R = indicators_used init_registry" by blast
  from m b1 b3
  have c4: "generate_initialization_code plain_lib ?R = generate_initialization_code plain_lib init_registry"
    by blast
  from a1 c1 a2 c2 b1 b2 c3 b3 c4 show ?thesis by (intro conjI)
qed

text \<open>
  Claim C10 as stated fails in one case: for a custom indicator without a symbol, nothing is
  stored in \<^verbatim>\<open>indicators_used\<close>, but the name is added to \<^verbatim>\<open>custom_methods_needed\<close>.
\<close>

theorem symbolless_custom_counterexample:
  "config_symbol max_drawdown_no_symbol = JNull
   \<and> process_indicator plain_lib \<lparr>indicators_used = [], custom_methods_needed = {}\<rparr>
        (JDict max_drawdown_no_symbol)
     = Inr \<lparr>indicators_used = [], custom_methods_needed = {''max-drawdown''}\<rparr>
   \<and> custom_methods_needed \<lparr>indicators_used = [], custom_methods_needed = {''max-drawdown''}\<rparr>
       \<noteq> custom_methods_needed \<lparr>indicators_used = [], custom_methods_needed = {}\<rparr>"
proof -
  have "process_indicator plain_lib \<lparr>indicators_used = [], custom_methods_needed = {}\<rparr>
        (JDict max_drawdown_no_symbol)
     = Inr \<lparr>indicators_used = [], custom_methods_needed = {''max-drawdown''}\<rparr>"
    by code_simp
  moreover have "config_symbol max_drawdown_no_symbol = JNull" by code_simp
  ultimately show ?thesis by simp
qed

end
